theory Spec2Isabelle
  imports Complex_Main "HOL-Library.List_Lexorder" "HOL-Library.Option_ord"
begin

section \<open>Values of Python and of the store\<close>

text \<open>
  A Python \<open>str\<close> is a sequence of Unicode code points, modelled as a list of natural
  numbers. The store (SQLite) keeps the same text; its default collation compares the UTF-8
  bytes, which orders texts as the lexicographic order of their code points does, so
  \<open>ORDER BY\<close> and \<open>>=\<close> on text columns are the list order of \<open>HOL-Library.List_Lexorder\<close>.
  A column value is \<open>None\<close> for SQL NULL; NULL sorts before every text, as
  \<open>HOL-Library.Option_ord\<close> orders \<open>None\<close> before \<open>Some\<close>.
\<close>

type_synonym ustring = "nat list"

definition str :: "string \<Rightarrow> ustring" where
  "str s = map of_char s"

text \<open>The literal \<open>"\<dots>"\<close> of line 217 of the source, the two Hangul syllables U+C784 U+C2E0.\<close>

definition pregnant_marker :: ustring where
  "pregnant_marker = [0xC784, 0xC2E0]"

text \<open>Python's truth value of a value that is \<open>None\<close> or a \<open>str\<close>.\<close>

definition truthy :: "ustring option \<Rightarrow> bool" where
  "truthy v = (case v of None \<Rightarrow> False | Some s \<Rightarrow> s \<noteq> [])"

text \<open>The code points \<open>str.strip()\<close> removes (those for which \<open>str.isspace()\<close> holds).\<close>

definition is_space :: "nat \<Rightarrow> bool" where
  "is_space c = (c \<in> set [0x09, 0x0A, 0x0B, 0x0C, 0x0D, 0x1C, 0x1D, 0x1E, 0x1F, 0x20, 0x85, 0xA0,
       0x1680, 0x2000, 0x2001, 0x2002, 0x2003, 0x2004, 0x2005, 0x2006, 0x2007, 0x2008, 0x2009,
       0x200A, 0x2028, 0x2029, 0x202F, 0x205F, 0x3000])"

definition strip :: "ustring \<Rightarrow> ustring" where
  "strip s = rev (dropWhile is_space (rev (dropWhile is_space s)))"

text \<open>\<open>s.split(sep)\<close> for a separator of one code point: the pieces between its occurrences.\<close>

fun split_on :: "nat \<Rightarrow> ustring \<Rightarrow> ustring list" where
  "split_on sep [] = [[]]"
| "split_on sep (c # cs) =
     (if c = sep then [] # split_on sep cs
      else (case split_on sep cs of
              [] \<Rightarrow> [[c]]
            | p # ps \<Rightarrow> (c # p) # ps))"

text \<open>
  SQL comparison \<open>=\<close> is three-valued; a \<open>WHERE\<close> or \<open>ON\<close> keeps a row only when the
  comparison is true, which it never is when a side is NULL.
\<close>

definition sql_eq :: "'a option \<Rightarrow> 'a option \<Rightarrow> bool" where
  "sql_eq x y = (case x of None \<Rightarrow> False | Some u \<Rightarrow> (case y of None \<Rightarrow> False | Some v \<Rightarrow> u = v))"

definition coalesce :: "'a option \<Rightarrow> 'a \<Rightarrow> 'a" where
  "coalesce v dflt = (case v of None \<Rightarrow> dflt | Some x \<Rightarrow> x)"

text \<open>\<open>x IN (?, \<dots>, ?)\<close> with the parameters bound to a list of Python values.\<close>

definition sql_in :: "'a option \<Rightarrow> 'a list \<Rightarrow> bool" where
  "sql_in x vs = (case x of None \<Rightarrow> False | Some u \<Rightarrow> u \<in> set vs)"

text \<open>SQLite's \<open>lower()\<close> folds the 26 ASCII capitals only.\<close>

definition sql_lower :: "ustring \<Rightarrow> ustring" where
  "sql_lower s = map (\<lambda>c. if 65 \<le> c \<and> c \<le> 90 then c + 32 else c) s"

text \<open>\<open>SUM\<close> skips NULL and is NULL when no value is left.\<close>

definition sql_sum :: "real option list \<Rightarrow> real option" where
  "sql_sum vs = (let xs = List.map_filter (\<lambda>v. v) vs in if xs = [] then None else Some (sum_list xs))"

text \<open>\<open>cursor.fetchone()\<close>: the first row of the result, or \<open>None\<close>.\<close>

definition fetchone :: "'a list \<Rightarrow> 'a option" where
  "fetchone rows = (case rows of [] \<Rightarrow> None | r # _ \<Rightarrow> Some r)"

text \<open>
  \<open>ORDER BY key DESC LIMIT 1\<close>: a row whose key is greatest; among rows of equal key the
  engine's choice is not specified, the model takes the first in scan order.
\<close>

fun greatest_by :: "('a \<Rightarrow> 'k::linorder) \<Rightarrow> 'a \<Rightarrow> 'a list \<Rightarrow> 'a" where
  "greatest_by key x [] = x"
| "greatest_by key x (y # ys) = greatest_by key (if key x < key y then y else x) ys"

definition order_desc_limit1 :: "('a \<Rightarrow> 'k::linorder) \<Rightarrow> 'a list \<Rightarrow> 'a list" where
  "order_desc_limit1 key rows = (case rows of [] \<Rightarrow> [] | r # rs \<Rightarrow> [greatest_by key r rs])"

section \<open>The tables\<close>

text \<open>
  The schema is created outside the source file; the columns are those the queries name.
  Text columns may hold NULL; \<open>animals.id\<close> is the integer key of the table. Each table is
  the list of its rows in scan order. Every query is assumed to be answered by the store:
  a failure of the connection itself (the \<open>except\<close> branches that report through
  \<open>st.error\<close>) is not part of the model, failures raised by the Python code are.
\<close>

record animal =
  a_id :: int
  a_ear_tag :: "ustring option"
  a_farm_name :: "ustring option"
  a_gender :: "ustring option"
  a_birth_date :: "ustring option"

record issue_row =
  i_farm_name :: "ustring option"
  i_ear_tag :: "ustring option"
  i_event_status :: "ustring option"
  i_event_date :: "ustring option"

record repro_row =
  r_animal_id :: "int option"
  r_breeding_date :: "ustring option"
  r_parity :: "int option"
  r_pregnancy_status :: "ustring option"
  r_delivery_status :: "ustring option"
  r_calving_date :: "ustring option"

record lactation_row =
  l_animal_id :: "int option"
  l_period :: "ustring option"

record milk_yield_row =
  m_ear_tag :: "ustring option"
  m_record_date :: "ustring option"
  m_record_year :: "int option"
  m_yield_value :: "real option"

record db =
  animals :: "animal list"
  issue :: "issue_row list"
  repro :: "repro_row list"
  lactation :: "lactation_row list"
  milk_yield :: "milk_yield_row list"

section \<open>The filter resolver\<close>

text \<open>
  \<open>animals a LEFT JOIN issue i ON a.farm_name = i.farm_name AND a.ear_tag = i.ear_tag\<close>:
  one row for each matching event of the animal, and one row with a NULL event when the
  animal has none.
\<close>

definition events_of :: "db \<Rightarrow> animal \<Rightarrow> issue_row list" where
  "events_of d a =
     filter (\<lambda>i. sql_eq (a_farm_name a) (i_farm_name i) \<and> sql_eq (a_ear_tag a) (i_ear_tag i)) (issue d)"

definition left_join_issue :: "db \<Rightarrow> animal \<Rightarrow> (animal \<times> ustring option) list" where
  "left_join_issue d a =
     (case events_of d a of
        [] \<Rightarrow> [(a, None)]
      | e # es \<Rightarrow> map (\<lambda>i. (a, i_event_status i)) (e # es))"

definition get_filtered_ear_tags :: "db \<Rightarrow> ustring \<Rightarrow> ustring \<Rightarrow> ustring list" where
  "get_filtered_ear_tags d farm status =
     (let rows =
        (if status \<noteq> str ''Total'' then
           sort (map (\<lambda>(a, st). a_ear_tag a)
             (filter (\<lambda>(a, st). sql_eq (a_farm_name a) (Some farm) \<and> coalesce st (str ''owned'') = status)
               (concat (map (left_join_issue d) (animals d)))))
         else
           sort (map a_ear_tag (filter (\<lambda>a. sql_eq (a_farm_name a) (Some farm)) (animals d))))
      in List.map_filter (\<lambda>r. if truthy r then r else None) rows)"

definition get_total_animals_filtered :: "db \<Rightarrow> ustring \<Rightarrow> ustring \<Rightarrow> nat" where
  "get_total_animals_filtered d farm status = length (get_filtered_ear_tags d farm status)"

section \<open>Aggregations over a resolved scope\<close>

text \<open>
  Yield values are numbers of the store; the model takes them as reals, so the rounding of
  floating-point sums is not represented.
\<close>

datatype py_error = TypeError | ValueError | OverflowError

definition get_farm_total_milk_yield_filtered :: "db \<Rightarrow> ustring \<Rightarrow> ustring \<Rightarrow> real" where
  "get_farm_total_milk_yield_filtered d farm status =
     (let ear_tags = get_filtered_ear_tags d farm status in
      if ear_tags = [] then 0
      else (let row = sql_sum (map m_yield_value
                        (filter (\<lambda>m. sql_in (m_ear_tag m) ear_tags) (milk_yield d)))
            in (case row of Some v \<Rightarrow> v | None \<Rightarrow> 0)))"

text \<open>\<open>COUNT(DISTINCT record_date)\<close> counts the distinct values that are not NULL.\<close>

definition get_farm_total_lactation_days_filtered :: "db \<Rightarrow> ustring \<Rightarrow> ustring \<Rightarrow> nat" where
  "get_farm_total_lactation_days_filtered d farm status =
     (let ear_tags = get_filtered_ear_tags d farm status in
      if ear_tags = [] then 0
      else length (remdups (List.map_filter m_record_date
                     (filter (\<lambda>m. sql_in (m_ear_tag m) ear_tags) (milk_yield d)))))"

text \<open>
  \<open>GROUP BY key\<close> with \<open>SUM\<close>: one row for each distinct key (NULL is a key of its own),
  delivered in the order of the keys.
\<close>

definition group_sum :: "(milk_yield_row \<Rightarrow> 'k::linorder) \<Rightarrow> milk_yield_row list \<Rightarrow> ('k \<times> real option) list" where
  "group_sum key rows =
     map (\<lambda>k. (k, sql_sum (map m_yield_value (filter (\<lambda>m. key m = k) rows))))
       (sort (remdups (map key rows)))"

text \<open>
  \<open>rows.sort(key=lambda x: x[0])\<close>: Python cannot compare \<open>None\<close> with a number, so the
  sort of two or more rows raises \<open>TypeError\<close> when one of the years is NULL.
\<close>

definition sort_rows_by_year :: "(int option \<times> real option) list \<Rightarrow> py_error + (int option \<times> real option) list" where
  "sort_rows_by_year rows =
     (if 2 \<le> length rows \<and> list_ex (\<lambda>r. fst r = None) rows then Inl TypeError
      else Inr (sort_key fst rows))"

definition get_farm_milk_yield_by_year_filtered :: "db \<Rightarrow> ustring \<Rightarrow> ustring \<Rightarrow> (int option \<times> real option) list" where
  "get_farm_milk_yield_by_year_filtered d farm status =
     (let ear_tags = get_filtered_ear_tags d farm status in
      if ear_tags = [] then []
      else (let rows = group_sum m_record_year
                         (filter (\<lambda>m. sql_in (m_ear_tag m) ear_tags) (milk_yield d))
            in (case sort_rows_by_year rows of
                  Inr sorted_rows \<Rightarrow> sorted_rows
                | Inl e \<Rightarrow> [])))"

text \<open>
  The inner \<open>SELECT id FROM animals WHERE ear_tag IN (\<dots>)\<close> of the abortion count names no
  farm: it selects every animal of the table that carries one of the ear tags.
\<close>

definition get_farm_abortion_count_filtered :: "db \<Rightarrow> ustring \<Rightarrow> ustring \<Rightarrow> nat" where
  "get_farm_abortion_count_filtered d farm status =
     (let ear_tags = get_filtered_ear_tags d farm status in
      if ear_tags = [] then 0
      else (let ids = map a_id (filter (\<lambda>a. sql_in (a_ear_tag a) ear_tags) (animals d))
            in length (filter (\<lambda>r. sql_in (r_animal_id r) ids
                                   \<and> sql_eq (map_option sql_lower (r_delivery_status r)) (Some (str ''abortion'')))
                         (repro d))))"

section \<open>Dates\<close>

text \<open>
  A \<open>datetime.date\<close> is modelled by its proleptic Gregorian ordinal (\<open>date.toordinal()\<close>,
  1 for 0001-01-01), so \<open>(a - b).days\<close> is the difference of the ordinals and
  \<open>a - timedelta(days=k)\<close> is \<open>a - k\<close>, raising \<open>OverflowError\<close> when the result leaves
  the range of Python's dates. The calendar fields are computed from the ordinal as the
  \<open>datetime\<close> module does (\<open>_ord2ymd\<close>), and an ordinal from the fields by \<open>_ymd2ord\<close>.
\<close>

type_synonym date = int

definition MAXORDINAL :: int where
  "MAXORDINAL = 3652059"

definition is_leap :: "int \<Rightarrow> bool" where
  "is_leap y = (y mod 4 = 0 \<and> (y mod 100 \<noteq> 0 \<or> y mod 400 = 0))"

definition days_before_year :: "int \<Rightarrow> int" where
  "days_before_year yr = (let y = yr - 1 in y * 365 + y div 4 - y div 100 + y div 400)"

definition DAYS_IN_MONTH :: "int list" where
  "DAYS_IN_MONTH = [-1, 31, 28, 31, 30, 31, 30, 31, 31, 30, 31, 30, 31]"

definition DAYS_BEFORE_MONTH :: "int list" where
  "DAYS_BEFORE_MONTH = [-1, 0, 31, 59, 90, 120, 151, 181, 212, 243, 273, 304, 334]"

text \<open>Both tables are read at a month between 1 and 12 only.\<close>

definition days_in_month :: "int \<Rightarrow> int \<Rightarrow> int" where
  "days_in_month y m = (if m = 2 \<and> is_leap y then 29 else DAYS_IN_MONTH ! nat m)"

definition days_before_month :: "int \<Rightarrow> int \<Rightarrow> int" where
  "days_before_month y m = DAYS_BEFORE_MONTH ! nat m + (if 2 < m \<and> is_leap y then 1 else 0)"

definition ymd2ord :: "int \<Rightarrow> int \<Rightarrow> int \<Rightarrow> date" where
  "ymd2ord y m dd = days_before_year y + days_before_month y m + dd"

text \<open>
  \<open>_ord2ymd\<close> in two parts: \<open>month_day\<close> is its end, which finds the month and the day
  from the number of days \<open>n\<close> before the date in its year, estimating the month as
  \<open>(n + 50) >> 5\<close> and stepping back one month when the estimate is too high.
\<close>

definition month_day :: "int \<Rightarrow> bool \<Rightarrow> int \<times> int" where
  "month_day n leapyear =
     (let mth = (n + 50) div 32;
          preceding = DAYS_BEFORE_MONTH ! nat mth + (if 2 < mth \<and> leapyear then 1 else 0)
      in if n < preceding
         then (let mth = mth - 1;
                   preceding = preceding - (DAYS_IN_MONTH ! nat mth + (if mth = 2 \<and> leapyear then 1 else 0))
               in (mth, n - preceding + 1))
         else (mth, n - preceding + 1))"

definition ord2ymd :: "date \<Rightarrow> int \<times> int \<times> int" where
  "ord2ymd ordinal =
     (let n = ordinal - 1;
          n400 = n div 146097; n = n mod 146097;
          yr = n400 * 400 + 1;
          n100 = n div 36524; n = n mod 36524;
          n4 = n div 1461; n = n mod 1461;
          n1 = n div 365; n = n mod 365;
          yr = yr + n100 * 100 + n4 * 4 + n1
      in if n1 = 4 \<or> n100 = 4 then (yr - 1, 12, 31)
         else (let leapyear = (n1 = 3 \<and> (n4 \<noteq> 24 \<or> n100 = 3))
               in (case month_day n leapyear of (mth, dd) \<Rightarrow> (yr, mth, dd))))"

text \<open>The calendar month of a date, counted in months: it orders dates by year and month.\<close>

definition month_number :: "date \<Rightarrow> int" where
  "month_number dt = (case ord2ymd dt of (y, m, dd) \<Rightarrow> y * 12 + (m - 1))"

definition date_sub :: "date \<Rightarrow> int \<Rightarrow> py_error + date" where
  "date_sub dt k = (let o' = dt - k in if 0 < o' \<and> o' \<le> MAXORDINAL then Inr o' else Inl OverflowError)"

definition digits2 :: "int \<Rightarrow> ustring" where
  "digits2 n = [48 + nat (n div 10 mod 10), 48 + nat (n mod 10)]"

definition digits4 :: "int \<Rightarrow> ustring" where
  "digits4 n = [48 + nat (n div 1000 mod 10), 48 + nat (n div 100 mod 10),
                48 + nat (n div 10 mod 10), 48 + nat (n mod 10)]"

text \<open>\<open>d.strftime("%Y-%m")\<close> and \<open>d.strftime("%Y-%m-%d")\<close>, the year written with four digits.\<close>

definition strftime_ym :: "date \<Rightarrow> ustring" where
  "strftime_ym dt = (case ord2ymd dt of (y, m, dd) \<Rightarrow> digits4 y @ str ''-'' @ digits2 m)"

definition strftime_ymd :: "date \<Rightarrow> ustring" where
  "strftime_ymd dt = (case ord2ymd dt of (y, m, dd) \<Rightarrow> digits4 y @ str ''-'' @ digits2 m @ str ''-'' @ digits2 dd)"

text \<open>
  \<open>datetime.strptime(s, "%Y-%m-%d").date()\<close> belongs to Python's library; the functions
  below take it as the parameter \<open>strptime\<close>, which returns the date or the error raised.
  \<open>strptime_ymd\<close> is that parser on texts of ASCII digits, for evaluating examples: four
  digits, \<open>-\<close>, a month (\<open>1[0-2]|0[1-9]|[1-9]\<close>), \<open>-\<close>, a day
  (\<open>3[01]|[12]\d|0[1-9]|[1-9]| [1-9]\<close>), nothing after it, and the fields a date of the
  calendar.
\<close>

definition digit_val :: "nat \<Rightarrow> int option" where
  "digit_val c = (if 48 \<le> c \<and> c \<le> 57 then Some (int c - 48) else None)"

fun parse_month :: "ustring \<Rightarrow> (int \<times> ustring) option" where
  "parse_month (c1 # c2 # cs) =
     (if c1 = 49 \<and> 48 \<le> c2 \<and> c2 \<le> 50 \<and> (case cs of c3 # _ \<Rightarrow> c3 = 45 | [] \<Rightarrow> False)
        then Some (10 + (int c2 - 48), cs)
      else if c1 = 48 \<and> 49 \<le> c2 \<and> c2 \<le> 57 then Some (int c2 - 48, cs)
      else if 49 \<le> c1 \<and> c1 \<le> 57 then Some (int c1 - 48, c2 # cs)
      else None)"
| "parse_month [c1] = (if 49 \<le> c1 \<and> c1 \<le> 57 then Some (int c1 - 48, []) else None)"
| "parse_month [] = None"

fun parse_day :: "ustring \<Rightarrow> (int \<times> ustring) option" where
  "parse_day (c1 # c2 # cs) =
     (if c1 = 51 \<and> 48 \<le> c2 \<and> c2 \<le> 49 then Some (30 + (int c2 - 48), cs)
      else if 49 \<le> c1 \<and> c1 \<le> 50 \<and> 48 \<le> c2 \<and> c2 \<le> 57 then Some (10 * (int c1 - 48) + (int c2 - 48), cs)
      else if c1 = 48 \<and> 49 \<le> c2 \<and> c2 \<le> 57 then Some (int c2 - 48, cs)
      else if 49 \<le> c1 \<and> c1 \<le> 57 then Some (int c1 - 48, c2 # cs)
      else if c1 = 32 \<and> 49 \<le> c2 \<and> c2 \<le> 57 then Some (int c2 - 48, cs)
      else None)"
| "parse_day [c1] = (if 49 \<le> c1 \<and> c1 \<le> 57 then Some (int c1 - 48, []) else None)"
| "parse_day [] = None"

definition strptime_ymd :: "ustring \<Rightarrow> py_error + date" where
  "strptime_ymd s =
     (case s of
        y1 # y2 # y3 # y4 # dash1 # rest \<Rightarrow>
          (case (digit_val y1, digit_val y2, digit_val y3, digit_val y4) of
             (Some a, Some b, Some c, Some e) \<Rightarrow>
               (if dash1 \<noteq> 45 then Inl ValueError
                else (case parse_month rest of
                        Some (m, dash2 # rest') \<Rightarrow>
                          (if dash2 \<noteq> 45 then Inl ValueError
                           else (case parse_day rest' of
                                   Some (dd, []) \<Rightarrow>
                                     (let y = 1000 * a + 100 * b + 10 * c + e in
                                      if 1 \<le> y \<and> dd \<le> days_in_month y m then Inr (ymd2ord y m dd)
                                      else Inl ValueError)
                                 | _ \<Rightarrow> Inl ValueError))
                      | _ \<Rightarrow> Inl ValueError))
           | _ \<Rightarrow> Inl ValueError)
      | _ \<Rightarrow> Inl ValueError)"

section \<open>Heifer count\<close>

text \<open>
  The body of the loop over the fetched birth dates: a NULL, empty or blank text is passed
  over, an error of the parser is caught (\<open>except: continue\<close>), and the age in months is the
  number of days divided by 30.5. The quotient is compared as a real number, which agrees
  with the floating-point comparison for every number of days (24 * 30.5 = 732 is exact).
\<close>

definition heifer_step :: "(ustring \<Rightarrow> py_error + date) \<Rightarrow> date \<Rightarrow> ustring option \<Rightarrow> nat \<Rightarrow> nat" where
  "heifer_step strptime today birth_date_str count =
     (case birth_date_str of
        None \<Rightarrow> count
      | Some s \<Rightarrow>
          if s \<noteq> [] \<and> strip s \<noteq> [] then
            (case strptime s of
               Inl e \<Rightarrow> count
             | Inr birth_date \<Rightarrow>
                 (let age_months = real_of_int (today - birth_date) / 30.5 in
                  if age_months < 24 then count + 1 else count))
          else count)"

definition get_heifer_count :: "(ustring \<Rightarrow> py_error + date) \<Rightarrow> date \<Rightarrow> db \<Rightarrow> ustring \<Rightarrow> nat" where
  "get_heifer_count strptime today d farm =
     (let rows = map a_birth_date
                   (filter (\<lambda>a. sql_eq (a_farm_name a) (Some farm) \<and> sql_eq (a_gender a) (Some (str ''F'')))
                      (animals d))
      in fold (heifer_step strptime today) rows 0)"

section \<open>Classifiers\<close>

definition compute_breeding_diagnosis :: "db \<Rightarrow> ustring \<Rightarrow> ustring" where
  "compute_breeding_diagnosis d ear_tag =
     (case fetchone (filter (\<lambda>a. sql_eq (a_ear_tag a) (Some ear_tag)) (animals d)) of
        None \<Rightarrow> str ''Open''
      | Some row \<Rightarrow>
          (let animal_id = a_id row; gender = a_gender row in
           if gender \<noteq> Some (str ''F'') then str ''Open''
           else (case fetchone (order_desc_limit1 r_breeding_date
                         (filter (\<lambda>r. sql_eq (r_animal_id r) (Some animal_id)) (repro d))) of
                   None \<Rightarrow> str ''Mating''
                 | Some rp \<Rightarrow>
                     (let calving_date = r_calving_date rp; pregnancy_status = r_pregnancy_status rp in
                      if truthy calving_date \<and> map_option strip calving_date \<noteq> Some [] then str ''Open''
                      else if truthy pregnancy_status \<and> map_option strip pregnancy_status = Some pregnant_marker
                        then str ''Pregnant''
                      else str ''Mating''))))"

text \<open>
  The body of \<open>compute_animal_category\<close> inside its \<open>try\<close>: the unpacking
  \<open>_, end_str = period.split("~")\<close> raises \<open>ValueError\<close> unless the split has two pieces.
\<close>

definition animal_category_body :: "(ustring \<Rightarrow> py_error + date) \<Rightarrow> date \<Rightarrow> db \<Rightarrow> ustring \<Rightarrow> py_error + ustring" where
  "animal_category_body strptime today d ear_tag =
     (case fetchone (filter (\<lambda>a. sql_eq (a_ear_tag a) (Some ear_tag)) (animals d)) of
        None \<Rightarrow> Inr (str ''Fattening'')
      | Some row \<Rightarrow>
          (let animal_id = a_id row in
           (case fetchone (order_desc_limit1 l_period
                     (filter (\<lambda>l. sql_eq (l_animal_id l) (Some animal_id)) (lactation d))) of
              None \<Rightarrow> Inr (str ''Fattening'')
            | Some lrow \<Rightarrow>
                (case l_period lrow of
                   None \<Rightarrow> Inr (str ''Fattening'')
                 | Some period \<Rightarrow>
                     if period = [] then Inr (str ''Fattening'')
                     else if 126 \<notin> set period then Inr (str ''Fattening'')
                     else (case split_on 126 period of
                             [start_str, end_str] \<Rightarrow>
                               (case strptime (strip end_str) of
                                  Inl e \<Rightarrow> Inr (str ''Fattening'')
                                | Inr end_date \<Rightarrow>
                                    (let gap = today - end_date in
                                     Inr (if gap \<le> 10 then str ''Milking'' else str ''Dry'')))
                           | _ \<Rightarrow> Inl ValueError)))))"

definition compute_animal_category :: "(ustring \<Rightarrow> py_error + date) \<Rightarrow> date \<Rightarrow> db \<Rightarrow> ustring \<Rightarrow> ustring" where
  "compute_animal_category strptime today d ear_tag =
     (case animal_category_body strptime today d ear_tag of
        Inr category \<Rightarrow> category
      | Inl e \<Rightarrow> str ''Fattening'')"

section \<open>Average parity\<close>

text \<open>
  The inner query joins each reproduction record to the animals of its \<open>animal_id\<close>, keeps
  the females with a parity that is not NULL and groups by \<open>a.id\<close>; \<open>r.parity\<close> is a bare
  column of the group, which the engine reads from one row of the group (the model: the
  first in scan order). The result is the text \<open>"-"\<close> or the mean formatted with one
  decimal, \<open>OneDecimal x\<close> standing for \<open>f"{x:.1f}"\<close>.
\<close>

datatype parity_text = NoData | OneDecimal real

definition parity_join :: "db \<Rightarrow> (repro_row \<times> animal) list" where
  "parity_join d =
     filter (\<lambda>(r, a). sql_eq (a_gender a) (Some (str ''F'')) \<and> r_parity r \<noteq> None)
       (concat (map (\<lambda>r. map (\<lambda>a. (r, a)) (filter (\<lambda>a. sql_eq (r_animal_id r) (Some (a_id a))) (animals d)))
                  (repro d)))"

definition parity_samples :: "db \<Rightarrow> int option list" where
  "parity_samples d =
     List.map_filter (\<lambda>k. map_option (\<lambda>(r, a). r_parity r) (fetchone (filter (\<lambda>(r, a). a_id a = k) (parity_join d))))
       (sort (remdups (map (\<lambda>(r, a). a_id a) (parity_join d))))"

definition sql_avg :: "int option list \<Rightarrow> real option" where
  "sql_avg vs = (let xs = List.map_filter (\<lambda>v. v) vs
                 in if xs = [] then None else Some (real_of_int (sum_list xs) / real (length xs)))"

definition get_average_parity :: "db \<Rightarrow> parity_text" where
  "get_average_parity d =
     (case sql_avg (parity_samples d) of
        None \<Rightarrow> NoData
      | Some v \<Rightarrow> if v \<noteq> 0 then OneDecimal v else NoData)"

section \<open>Trailing twelve months of yield\<close>

text \<open>
  The loop \<open>for i in range(12)\<close> that builds the month labels, each the \<open>"%Y-%m"\<close> of the
  day \<open>(11 - i) * 30\<close> days before today.
\<close>

fun month_labels :: "date \<Rightarrow> nat list \<Rightarrow> py_error + ustring list" where
  "month_labels today [] = Inr []"
| "month_labels today (i # rest) =
     (case date_sub today ((11 - int i) * 30) of
        Inl e \<Rightarrow> Inl e
      | Inr month_date \<Rightarrow>
          (case month_labels today rest of
             Inl e \<Rightarrow> Inl e
           | Inr months \<Rightarrow> Inr (strftime_ym month_date # months)))"

text \<open>
  The query of the trend: the monthly sums of the records of the scope dated on or after
  \<open>start_date_str\<close>. SQLite's \<open>strftime('%Y-%m', record_date)\<close> is the parameter
  \<open>sql_month\<close> (NULL for a text that is no date).
\<close>

definition trend_rows :: "(ustring \<Rightarrow> ustring option) \<Rightarrow> db \<Rightarrow> ustring list \<Rightarrow> ustring \<Rightarrow> (ustring option \<times> real option) list" where
  "trend_rows sql_month d ear_tags start_date_str =
     group_sum (\<lambda>m. Option.bind (m_record_date m) sql_month)
       (filter (\<lambda>m. sql_in (m_ear_tag m) ear_tags
                   \<and> (case m_record_date m of None \<Rightarrow> False | Some rd \<Rightarrow> start_date_str \<le> rd))
          (milk_yield d))"

text \<open>
  Lines 461 to 496 of the source: the function returns \<open>None\<close> for an empty scope, and
  otherwise plots the twelve pairs of \<open>months\<close> and \<open>values\<close>, which are the result here.
  The dictionary \<open>data\<close> keeps the last row of a key.
\<close>

definition plot_farm_milk_yield_trend_filtered ::
    "(ustring \<Rightarrow> ustring option) \<Rightarrow> date \<Rightarrow> db \<Rightarrow> ustring \<Rightarrow> ustring \<Rightarrow> py_error + (ustring \<times> real option) list option" where
  "plot_farm_milk_yield_trend_filtered sql_month today d farm status =
     (let ear_tags = get_filtered_ear_tags d farm status in
      if ear_tags = [] then Inr None
      else (case date_sub today 365 of
              Inl e \<Rightarrow> Inl e
            | Inr start_date \<Rightarrow>
                (let start_date_str = strftime_ymd start_date;
                     rows = trend_rows sql_month d ear_tags start_date_str
                 in (case month_labels today [0..<12] of
                       Inl e \<Rightarrow> Inl e
                     | Inr months \<Rightarrow>
                         (let data = map_of (rev rows) in
                          Inr (Some (map (\<lambda>m. (m, (case data (Some m) of
                                                     Some month_total \<Rightarrow> month_total
                                                   | None \<Rightarrow> Some 0)))
                                       months)))))))"

section \<open>The specification's reading of the scope and of the classifiers\<close>




text \<open>
  The breeding diagnosis in the specification's words, for the latest record \<open>rp\<close> of a
  female: a calving date that is not empty gives Open, a pregnancy status equal to the
  marker gives Pregnant.
\<close>

definition spec_diagnosis_of_record :: "repro_row \<Rightarrow> ustring" where
  "spec_diagnosis_of_record rp =
     (if r_calving_date rp \<noteq> None \<and> r_calving_date rp \<noteq> Some [] then str ''Open''
      else if r_pregnancy_status rp = Some pregnant_marker then str ''Pregnant''
      else str ''Mating'')"

definition spec_classify_breeding :: "db \<Rightarrow> ustring \<Rightarrow> ustring" where
  "spec_classify_breeding d ear_tag =
     (case List.find (\<lambda>a. a_ear_tag a = Some ear_tag) (animals d) of
        None \<Rightarrow> str ''Open''
      | Some a \<Rightarrow>
          if a_gender a \<noteq> Some (str ''F'') then str ''Open''
          else (case filter (\<lambda>r. r_animal_id r = Some (a_id a)) (repro d) of
                  [] \<Rightarrow> str ''Mating''
                | r # rs \<Rightarrow> spec_diagnosis_of_record (greatest_by r_breeding_date r rs)))"

text \<open>The same with both texts stripped of surrounding white space, as the code reads them.\<close>

definition diagnosis_of_record :: "repro_row \<Rightarrow> ustring" where
  "diagnosis_of_record rp =
     (if r_calving_date rp \<noteq> None \<and> map_option strip (r_calving_date rp) \<noteq> Some [] then str ''Open''
      else if map_option strip (r_pregnancy_status rp) = Some pregnant_marker then str ''Pregnant''
      else str ''Mating'')"

text \<open>
  The abortion count in the specification's words: the reproduction records of the animals
  of the farm whose ear tag is in the scope.
\<close>

definition spec_abortion_count :: "db \<Rightarrow> ustring \<Rightarrow> ustring \<Rightarrow> nat" where
  "spec_abortion_count d farm status =
     (let ids = map a_id (filter (\<lambda>a. a_farm_name a = Some farm
                                     \<and> sql_in (a_ear_tag a) (get_filtered_ear_tags d farm status))
                            (animals d))
      in length (filter (\<lambda>r. sql_in (r_animal_id r) ids
                             \<and> map_option sql_lower (r_delivery_status r) = Some (str ''abortion''))
                   (repro d)))"

text \<open>The category of a period text and a date, as the specification gives it.\<close>

definition category_of_period :: "(ustring \<Rightarrow> py_error + date) \<Rightarrow> date \<Rightarrow> ustring option \<Rightarrow> ustring" where
  "category_of_period strptime today p =
     (case p of
        None \<Rightarrow> str ''Fattening''
      | Some period \<Rightarrow>
          (case split_on 126 period of
             [start_str, end_str] \<Rightarrow>
               (case strptime (strip end_str) of
                  Inl e \<Rightarrow> str ''Fattening''
                | Inr end_date \<Rightarrow> if today - end_date \<le> 10 then str ''Milking'' else str ''Dry'')
           | _ \<Rightarrow> str ''Fattening''))"

text \<open>
  The category of an animal in the specification's words: Fattening without a lactation
  period of the animal, and otherwise the category of its period of greatest value.
\<close>

definition spec_classify_category :: "(ustring \<Rightarrow> py_error + date) \<Rightarrow> date \<Rightarrow> db \<Rightarrow> animal \<Rightarrow> ustring" where
  "spec_classify_category strptime today d a =
     (case filter (\<lambda>l. l_animal_id l = Some (a_id a)) (lactation d) of
        [] \<Rightarrow> str ''Fattening''
      | l # ls \<Rightarrow> category_of_period strptime today (l_period (greatest_by l_period l ls)))"

section \<open>Example stores\<close>

text \<open>
  The farm of the specification's scenarios on 2024-01-25: A1 (female, born 30 months
  ago), A2 (female, born 10 months ago, lactation until 2024-01-20) and the bull A3, sold.
\<close>

definition sunrise :: ustring where
  "sunrise = str ''Sunrise''"

definition sunrise_db :: db where
  "sunrise_db = \<lparr>
     animals = [
       \<lparr>a_id = 1, a_ear_tag = Some (str ''A1''), a_farm_name = Some sunrise,
        a_gender = Some (str ''F''), a_birth_date = Some (str ''2021-07-25'')\<rparr>,
       \<lparr>a_id = 2, a_ear_tag = Some (str ''A2''), a_farm_name = Some sunrise,
        a_gender = Some (str ''F''), a_birth_date = Some (str ''2023-03-25'')\<rparr>,
       \<lparr>a_id = 3, a_ear_tag = Some (str ''A3''), a_farm_name = Some sunrise,
        a_gender = Some (str ''Bull''), a_birth_date = None\<rparr>],
     issue = [
       \<lparr>i_farm_name = Some sunrise, i_ear_tag = Some (str ''A3''),
        i_event_status = Some (str ''Sell''), i_event_date = Some (str ''2023-12-01'')\<rparr>],
     repro = [
       \<lparr>r_animal_id = Some 1, r_breeding_date = Some (str ''2023-01-01''), r_parity = Some 1,
        r_pregnancy_status = Some pregnant_marker, r_delivery_status = Some (str ''Abortion''),
        r_calving_date = None\<rparr>,
       \<lparr>r_animal_id = Some 1, r_breeding_date = Some (str ''2023-06-01''), r_parity = Some 2,
        r_pregnancy_status = Some pregnant_marker, r_delivery_status = None,
        r_calving_date = None\<rparr>],
     lactation = [
       \<lparr>l_animal_id = Some 2, l_period = Some (str ''2024-01-01 ~ 2024-01-20'')\<rparr>],
     milk_yield = [
       \<lparr>m_ear_tag = Some (str ''A2''), m_record_date = Some (str ''2023-12-10''),
        m_record_year = Some 2023, m_yield_value = Some 20\<rparr>,
       \<lparr>m_ear_tag = Some (str ''A2''), m_record_date = Some (str ''2024-01-15''),
        m_record_year = Some 2024, m_yield_value = Some 30\<rparr>]\<rparr>"

text \<open>SQLite's \<open>strftime('%Y-%m', \<dots>)\<close> on the dates of the examples, all of the form YYYY-MM-DD.\<close>

definition example_sql_month :: "ustring \<Rightarrow> ustring option" where
  "example_sql_month s = (if length s = 10 then Some (take 7 s) else None)"


text \<open>A female whose only reproduction record has a calving date of one blank.\<close>

definition blank_calving_db :: db where
  "blank_calving_db = \<lparr>
     animals = [
       \<lparr>a_id = 1, a_ear_tag = Some (str ''A1''), a_farm_name = Some sunrise,
        a_gender = Some (str ''F''), a_birth_date = None\<rparr>],
     issue = [],
     repro = [
       \<lparr>r_animal_id = Some 1, r_breeding_date = Some (str ''2023-06-01''), r_parity = None,
        r_pregnancy_status = Some pregnant_marker, r_delivery_status = None,
        r_calving_date = Some (str '' '')\<rparr>],
     lactation = [], milk_yield = []\<rparr>"

text \<open>A female with one reproduction record, of parity 0.\<close>

definition parity_zero_db :: db where
  "parity_zero_db = \<lparr>
     animals = [
       \<lparr>a_id = 1, a_ear_tag = Some (str ''A1''), a_farm_name = Some sunrise,
        a_gender = Some (str ''F''), a_birth_date = None\<rparr>],
     issue = [],
     repro = [
       \<lparr>r_animal_id = Some 1, r_breeding_date = Some (str ''2023-06-01''), r_parity = Some 0,
        r_pregnancy_status = None, r_delivery_status = None, r_calving_date = None\<rparr>],
     lactation = [], milk_yield = []\<rparr>"

text \<open>
  Two farms that each tag an animal \<open>A1\<close>; the abortion belongs to the animal of the farm
  Hill.
\<close>

definition two_farms_db :: db where
  "two_farms_db = \<lparr>
     animals = [
       \<lparr>a_id = 1, a_ear_tag = Some (str ''A1''), a_farm_name = Some sunrise,
        a_gender = Some (str ''F''), a_birth_date = None\<rparr>,
       \<lparr>a_id = 2, a_ear_tag = Some (str ''A1''), a_farm_name = Some (str ''Hill''),
        a_gender = Some (str ''F''), a_birth_date = None\<rparr>],
     issue = [],
     repro = [
       \<lparr>r_animal_id = Some 2, r_breeding_date = Some (str ''2023-06-01''), r_parity = Some 1,
        r_pregnancy_status = None, r_delivery_status = Some (str ''abortion''),
        r_calving_date = None\<rparr>],
     lactation = [], milk_yield = []\<rparr>"

text \<open>
  Two farms that each tag a female \<open>A1\<close>; only the animal of the farm Hill has a
  lactation period, which ended on 2024-01-20.
\<close>

definition hill_a1 :: animal where
  "hill_a1 = \<lparr>a_id = 2, a_ear_tag = Some (str ''A1''), a_farm_name = Some (str ''Hill''),
               a_gender = Some (str ''F''), a_birth_date = None\<rparr>"

definition shared_tag_db :: db where
  "shared_tag_db = \<lparr>
     animals = [
       \<lparr>a_id = 1, a_ear_tag = Some (str ''A1''), a_farm_name = Some sunrise,
        a_gender = Some (str ''F''), a_birth_date = None\<rparr>,
       hill_a1],
     issue = [], repro = [],
     lactation = [
       \<lparr>l_animal_id = Some 2, l_period = Some (str ''2024-01-01 ~ 2024-01-20'')\<rparr>],
     milk_yield = []\<rparr>"

section \<open>Properties\<close>

subsection \<open>Auxiliary facts\<close>

lemma in_set_map_filter:
  "y \<in> set (List.map_filter f xs) \<longleftrightarrow> (\<exists>x\<in>set xs. f x = Some y)"
  by (induction xs) (auto split: option.splits)

lemma sql_eq_Some [simp]: "sql_eq x (Some v) \<longleftrightarrow> x = Some v"
  by (auto simp: sql_eq_def split: option.splits)

lemma keep_truthy_Some [simp]:
  "(if truthy r then r else None) = Some t \<longleftrightarrow> r = Some t \<and> t \<noteq> []"
  by (auto simp: truthy_def split: option.splits)

lemma fetchone_filter: "fetchone (filter P xs) = List.find P xs"
  by (induction xs) (auto simp: fetchone_def)

lemma left_join_issue_fst: "(b, st) \<in> set (left_join_issue d a) \<Longrightarrow> b = a"
  by (auto simp: left_join_issue_def split: list.splits)

lemma set_get_filtered_ear_tags_Total:
  "set (get_filtered_ear_tags d farm (str ''Total'')) =
     {t. t \<noteq> [] \<and> (\<exists>a\<in>set (animals d). a_farm_name a = Some farm \<and> a_ear_tag a = Some t)}"
  apply (auto simp: get_filtered_ear_tags_def in_set_map_filter)
   apply blast
  apply (force simp: image_iff)
  done

lemma set_get_filtered_ear_tags_status:
  assumes "status \<noteq> str ''Total''"
  shows "set (get_filtered_ear_tags d farm status) =
     {t. t \<noteq> [] \<and> (\<exists>a\<in>set (animals d). a_farm_name a = Some farm \<and> a_ear_tag a = Some t
          \<and> (\<exists>st. (a, st) \<in> set (left_join_issue d a) \<and> coalesce st (str ''owned'') = status))}"
  using assms
  apply (auto simp: get_filtered_ear_tags_def in_set_map_filter dest: left_join_issue_fst)
   apply (metis left_join_issue_fst)
  apply force
  done

lemmas scope_eval =
  get_filtered_ear_tags_def left_join_issue_def events_of_def sql_eq_def sql_in_def coalesce_def
  truthy_def str_def sunrise_def

subsection \<open>Scope of a status within the scope of the farm\<close>

text \<open>
  C5: for every farm and every status, each ear tag that \<open>get_filtered_ear_tags\<close> returns for
  the status is among those it returns for \<open>Total\<close>.
\<close>

theorem scope_subset_total:
  "set (get_filtered_ear_tags d farm status) \<subseteq> set (get_filtered_ear_tags d farm (str ''Total''))"
proof (cases "status = str ''Total''")
  case True
  then show ?thesis by simp
next
  case False
  show ?thesis
    unfolding set_get_filtered_ear_tags_status[OF False] set_get_filtered_ear_tags_Total
    by blast
qed

theorem scope_subset_total_witness:
  "set (get_filtered_ear_tags sunrise_db sunrise (str ''Sell''))
     \<subseteq> set (get_filtered_ear_tags sunrise_db sunrise (str ''Total''))
   \<and> get_filtered_ear_tags sunrise_db sunrise (str ''Sell'') = [str ''A3'']"
proof -
  have "get_filtered_ear_tags sunrise_db sunrise (str ''Sell'') = [str ''A3'']"
    by (simp add: scope_eval sunrise_db_def)
  then show ?thesis
    using scope_subset_total [of sunrise_db sunrise "str ''Sell''"] by simp
qed

subsection \<open>Empty scope\<close>

text \<open>
  C8: when the resolved scope is empty, the total milk yield is 0.0, the total of lactation
  days is 0, the yield by year is the empty sequence and the abortion count is 0.
\<close>

theorem empty_scope_defaults:
  assumes "get_filtered_ear_tags d farm status = []"
  shows "get_farm_total_milk_yield_filtered d farm status = 0
       \<and> get_farm_total_lactation_days_filtered d farm status = 0
       \<and> get_farm_milk_yield_by_year_filtered d farm status = []
       \<and> get_farm_abortion_count_filtered d farm status = 0"
  using assms
  by (simp add: get_farm_total_milk_yield_filtered_def get_farm_total_lactation_days_filtered_def
      get_farm_milk_yield_by_year_filtered_def get_farm_abortion_count_filtered_def)

theorem empty_scope_defaults_witness:
  "get_filtered_ear_tags sunrise_db sunrise (str ''Dead'') = []
   \<and> get_farm_total_milk_yield_filtered sunrise_db sunrise (str ''Dead'') = 0
   \<and> get_farm_total_lactation_days_filtered sunrise_db sunrise (str ''Dead'') = 0
   \<and> get_farm_milk_yield_by_year_filtered sunrise_db sunrise (str ''Dead'') = []
   \<and> get_farm_abortion_count_filtered sunrise_db sunrise (str ''Dead'') = 0"
proof -
  have h: "get_filtered_ear_tags sunrise_db sunrise (str ''Dead'') = []"
    by (simp add: scope_eval sunrise_db_def)
  show ?thesis
    using h empty_scope_defaults [OF h] by simp
qed

subsection \<open>Ear tags without an animal\<close>

text \<open>
  C10: for an ear tag that no row of the animals carries, \<open>compute_breeding_diagnosis\<close>
  returns Open and \<open>compute_animal_category\<close> returns Fattening.
\<close>

theorem unknown_ear_tag_defaults:
  assumes "\<forall>a\<in>set (animals d). a_ear_tag a \<noteq> Some ear_tag"
  shows "compute_breeding_diagnosis d ear_tag = str ''Open''
       \<and> compute_animal_category strptime today d ear_tag = str ''Fattening''"
proof -
  have "filter (\<lambda>a. sql_eq (a_ear_tag a) (Some ear_tag)) (animals d) = []"
    using assms by (simp add: filter_empty_conv)
  then show ?thesis
    by (simp add: compute_breeding_diagnosis_def compute_animal_category_def
        animal_category_body_def fetchone_def)
qed

theorem unknown_ear_tag_defaults_witness:
  "compute_breeding_diagnosis sunrise_db (str ''Z9'') = str ''Open''
   \<and> compute_animal_category strptime_ymd 738910 sunrise_db (str ''Z9'') = str ''Fattening''"
proof -
  have h: "\<forall>a\<in>set (animals sunrise_db). a_ear_tag a \<noteq> Some (str ''Z9'')"
    by (simp add: sunrise_db_def str_def)
  show ?thesis
    using unknown_ear_tag_defaults [OF h] by simp
qed

subsection \<open>Heifer count\<close>

lemma strip_nonempty: "strip s \<noteq> [] \<Longrightarrow> s \<noteq> []"
  by (auto simp: strip_def)

lemma heifer_step_eq:
  "heifer_step strptime today b n =
     n + (if \<exists>s bd. b = Some s \<and> strip s \<noteq> [] \<and> strptime s = Inr bd
                \<and> real_of_int (today - bd) / 30.5 < 24 then 1 else 0)"
proof (cases b)
  case None
  then show ?thesis by (simp add: heifer_step_def)
next
  case (Some s)
  show ?thesis
  proof (cases "strip s = []")
    case True
    with Some show ?thesis by (simp add: heifer_step_def)
  next
    case False
    then have "s \<noteq> []" by (rule strip_nonempty)
    with Some False show ?thesis
      by (cases "strptime s") (simp_all add: heifer_step_def Let_def)
  qed
qed

lemma fold_heifer_step:
  "fold (heifer_step strptime today) rows n =
     n + length (filter (\<lambda>b. \<exists>s bd. b = Some s \<and> strip s \<noteq> [] \<and> strptime s = Inr bd
                              \<and> real_of_int (today - bd) / 30.5 < 24) rows)"
proof (induction rows arbitrary: n)
  case Nil
  show ?case by simp
next
  case (Cons b rows)
  have "fold (heifer_step strptime today) (b # rows) n =
          fold (heifer_step strptime today) rows (heifer_step strptime today b n)"
    by simp
  also have "\<dots> = heifer_step strptime today b n +
          length (filter (\<lambda>b. \<exists>s bd. b = Some s \<and> strip s \<noteq> [] \<and> strptime s = Inr bd
                              \<and> real_of_int (today - bd) / 30.5 < 24) rows)"
    by (rule Cons.IH)
  also have "\<dots> = n +
          length (filter (\<lambda>b. \<exists>s bd. b = Some s \<and> strip s \<noteq> [] \<and> strptime s = Inr bd
                              \<and> real_of_int (today - bd) / 30.5 < 24) (b # rows))"
    by (simp add: heifer_step_eq)
  finally show ?case .
qed

text \<open>
  C9: \<open>get_heifer_count\<close> is the number of animals of the farm of gender \<open>F\<close> whose birth
  date is present, not blank, accepted by the parser, and less than 24 months of 30.5 days
  before today; the other animals are passed over without an error.
\<close>

theorem get_heifer_count_eq:
  "get_heifer_count strptime today d farm =
     length (filter (\<lambda>a. a_farm_name a = Some farm \<and> a_gender a = Some (str ''F'')
                         \<and> (\<exists>s bd. a_birth_date a = Some s \<and> strip s \<noteq> [] \<and> strptime s = Inr bd
                                \<and> real_of_int (today - bd) / 30.5 < 24))
               (animals d))"
  by (simp add: get_heifer_count_def fold_heifer_step filter_map comp_def)

lemmas date_eval =
  strptime_ymd_def digit_val_def ymd2ord_def days_before_year_def days_before_month_def
  days_in_month_def is_leap_def DAYS_IN_MONTH_def DAYS_BEFORE_MONTH_def

lemma strptime_examples:
  "strptime_ymd (str ''2021-07-25'') = Inr 737996"
  "strptime_ymd (str ''2023-03-25'') = Inr 738604"
  "strptime_ymd (str ''2024-01-20'') = Inr 738905"
  by (simp_all add: date_eval str_def)

theorem get_heifer_count_eq_witness:
  "get_heifer_count strptime_ymd 738910 sunrise_db sunrise = 1"
  using get_heifer_count_eq [of strptime_ymd 738910 sunrise_db sunrise]
  by (simp add: sunrise_db_def sunrise_def strip_def is_space_def str_def date_eval)

subsection \<open>Average parity\<close>

text \<open>
  C6: the specification has \<open>get_average_parity\<close> return the sentinel \<open>"-"\<close> exactly when
  no female animal has a reproduction record with a parity, and the mean of one parity per
  animal otherwise. The test \<open>if row and row[0]\<close> also takes a mean of 0 for no data: for
  a single female whose only record has parity 0 there is one parity sample, 0, and the
  result is the sentinel, not the mean.
\<close>

theorem average_parity_zero_is_sentinel:
  "parity_samples parity_zero_db = [Some 0] \<and> get_average_parity parity_zero_db = NoData"
  by (simp add: get_average_parity_def parity_samples_def parity_join_def sql_avg_def
      parity_zero_db_def fetchone_def str_def)

subsection \<open>Abortion count\<close>

text \<open>
  C7: the specification has the abortion count be the number of reproduction records, with
  a delivery status of abortion in any case of letters, of the animals of the farm that are
  in the scope. The inner query selects animals by ear tag alone: in a store where
  the farms Sunrise and Hill both have an animal tagged \<open>A1\<close>, the abortion of the animal
  of Hill is counted for Sunrise, where no animal has an abortion.
\<close>

theorem abortion_count_other_farm:
  "get_farm_abortion_count_filtered two_farms_db sunrise (str ''Total'') = 1
   \<and> spec_abortion_count two_farms_db sunrise (str ''Total'') = 0"
  by (simp add: get_farm_abortion_count_filtered_def spec_abortion_count_def scope_eval
      two_farms_db_def sql_lower_def)

subsection \<open>Breeding diagnosis\<close>

lemma greatest_by_in_set: "greatest_by key x xs \<in> set (x # xs)"
  by (induction xs arbitrary: x) (auto split: if_splits)

lemma greatest_by_greatest: "y \<in> set (x # xs) \<Longrightarrow> key y \<le> key (greatest_by key x xs)"
proof (induction xs arbitrary: x y)
  case Nil
  then show ?case by simp
next
  case (Cons z zs)
  let ?m = "if key x < key z then z else x"
  have le_m: "key x \<le> key ?m" "key z \<le> key ?m"
    by auto
  have m_le: "key ?m \<le> key (greatest_by key ?m zs)"
    by (rule Cons.IH) simp
  from Cons.prems consider "y = x" | "y = z" | "y \<in> set zs" by auto
  then have "key y \<le> key (greatest_by key ?m zs)"
  proof cases
    case 1
    with le_m(1) m_le show ?thesis by (blast intro: order_trans)
  next
    case 2
    with le_m(2) m_le show ?thesis by (blast intro: order_trans)
  next
    case 3
    then show ?thesis by (intro Cons.IH) simp
  qed
  then show ?case by simp
qed

lemma fetchone_simps [simp]: "fetchone [] = None" "fetchone (x # xs) = Some x"
  by (simp_all add: fetchone_def)

lemma strip_Nil [simp]: "strip [] = []"
  by (simp add: strip_def)

lemma diagnosis_of_record_code:
  "(let calving_date = r_calving_date rp; pregnancy_status = r_pregnancy_status rp in
      if truthy calving_date \<and> map_option strip calving_date \<noteq> Some [] then str ''Open''
      else if truthy pregnancy_status \<and> map_option strip pregnancy_status = Some pregnant_marker
        then str ''Pregnant''
      else str ''Mating'') = diagnosis_of_record rp"
  by (cases "r_calving_date rp"; cases "r_pregnancy_status rp")
     (auto simp: diagnosis_of_record_def truthy_def pregnant_marker_def Let_def dest: strip_nonempty)

text \<open>
  C3, amended: for the animal \<open>a\<close> that the function finds for the ear tag (the first row of
  the animals with it), the diagnosis is Open when the gender is not \<open>F\<close>; otherwise Mating
  when the animal has no reproduction record; otherwise there is a record of greatest
  breeding date among the animal's, and the diagnosis is Open when its calving date is not
  NULL and not blank, Pregnant when its pregnancy status, stripped of surrounding white
  space, is the marker, and Mating otherwise.
\<close>

theorem compute_breeding_diagnosis_rule:
  assumes "List.find (\<lambda>a. a_ear_tag a = Some ear_tag) (animals d) = Some a"
  shows "(a_gender a \<noteq> Some (str ''F'') \<longrightarrow> compute_breeding_diagnosis d ear_tag = str ''Open'')
       \<and> (a_gender a = Some (str ''F'') \<longrightarrow>
            (let recs = filter (\<lambda>r. r_animal_id r = Some (a_id a)) (repro d) in
             if recs = [] then compute_breeding_diagnosis d ear_tag = str ''Mating''
             else \<exists>rp\<in>set recs. (\<forall>r\<in>set recs. r_breeding_date r \<le> r_breeding_date rp)
                    \<and> compute_breeding_diagnosis d ear_tag = diagnosis_of_record rp))"
proof -
  have row: "fetchone (filter (\<lambda>a. a_ear_tag a = Some ear_tag) (animals d)) = Some a"
    using assms by (simp add: fetchone_filter)
  show ?thesis
  proof (cases "a_gender a = Some (str ''F'')")
    case False
    then show ?thesis
      by (simp add: compute_breeding_diagnosis_def row)
  next
    case True
    show ?thesis
    proof (cases "filter (\<lambda>r. r_animal_id r = Some (a_id a)) (repro d)")
      case Nil
      then show ?thesis
        using True
        by (simp add: compute_breeding_diagnosis_def row order_desc_limit1_def)
    next
      case (Cons r rs)
      let ?rp = "greatest_by r_breeding_date r rs"
      have "compute_breeding_diagnosis d ear_tag =
          (let calving_date = r_calving_date ?rp; pregnancy_status = r_pregnancy_status ?rp in
           if truthy calving_date \<and> map_option strip calving_date \<noteq> Some [] then str ''Open''
           else if truthy pregnancy_status \<and> map_option strip pregnancy_status = Some pregnant_marker
             then str ''Pregnant''
           else str ''Mating'')"
        using True Cons
        by (simp add: compute_breeding_diagnosis_def row order_desc_limit1_def)
      also have "\<dots> = diagnosis_of_record ?rp"
        by (rule diagnosis_of_record_code)
      finally have res: "compute_breeding_diagnosis d ear_tag = diagnosis_of_record ?rp" .
      have mem: "?rp \<in> set (r # rs)"
        by (rule greatest_by_in_set)
      have max: "\<forall>x\<in>set (r # rs). r_breeding_date x \<le> r_breeding_date ?rp"
        using greatest_by_greatest [of _ r rs r_breeding_date] by blast
      show ?thesis
        using True Cons res mem max by (auto simp: Let_def)
    qed
  qed
qed

lemmas diagnosis_eval =
  compute_breeding_diagnosis_def spec_classify_breeding_def diagnosis_of_record_def
  spec_diagnosis_of_record_def order_desc_limit1_def fetchone_def sql_eq_def truthy_def
  strip_def is_space_def pregnant_marker_def str_def sunrise_def

theorem compute_breeding_diagnosis_rule_witness:
  "List.find (\<lambda>a. a_ear_tag a = Some (str ''A1'')) (animals sunrise_db)
     = Some \<lparr>a_id = 1, a_ear_tag = Some (str ''A1''), a_farm_name = Some sunrise,
             a_gender = Some (str ''F''), a_birth_date = Some (str ''2021-07-25'')\<rparr>
   \<and> compute_breeding_diagnosis sunrise_db (str ''A1'') = str ''Pregnant''
   \<and> List.find (\<lambda>a. a_ear_tag a = Some (str ''A3'')) (animals sunrise_db)
     = Some \<lparr>a_id = 3, a_ear_tag = Some (str ''A3''), a_farm_name = Some sunrise,
             a_gender = Some (str ''Bull''), a_birth_date = None\<rparr>
   \<and> compute_breeding_diagnosis sunrise_db (str ''A3'') = str ''Open''"
proof -
  have h: "List.find (\<lambda>a. a_ear_tag a = Some (str ''A1'')) (animals sunrise_db)
     = Some \<lparr>a_id = 1, a_ear_tag = Some (str ''A1''), a_farm_name = Some sunrise,
             a_gender = Some (str ''F''), a_birth_date = Some (str ''2021-07-25'')\<rparr>"
    by (simp add: sunrise_db_def str_def)
  have h3: "List.find (\<lambda>a. a_ear_tag a = Some (str ''A3'')) (animals sunrise_db)
     = Some \<lparr>a_id = 3, a_ear_tag = Some (str ''A3''), a_farm_name = Some sunrise,
             a_gender = Some (str ''Bull''), a_birth_date = None\<rparr>"
    by (simp add: sunrise_db_def str_def)
  have bull: "compute_breeding_diagnosis sunrise_db (str ''A3'') = str ''Open''"
    using compute_breeding_diagnosis_rule [OF h3] by (simp add: str_def)
  have cow: "compute_breeding_diagnosis sunrise_db (str ''A1'') = str ''Pregnant''"
    using compute_breeding_diagnosis_rule [OF h]
    by (simp add: sunrise_db_def diagnosis_eval)
  show ?thesis
    using h h3 bull cow by simp
qed

text \<open>
  With a calving date that is one blank the unamended sentence fails: the date is not
  empty, which would give Open, and the code, which strips it, goes on to the pregnancy
  status.
\<close>

theorem compute_breeding_diagnosis_blank_calving:
  "compute_breeding_diagnosis blank_calving_db (str ''A1'') = str ''Pregnant''
   \<and> spec_classify_breeding blank_calving_db (str ''A1'') = str ''Open''"
  by (simp add: blank_calving_db_def diagnosis_eval)

subsection \<open>Animal category\<close>

lemma split_on_no_sep: "sep \<notin> set s \<Longrightarrow> split_on sep s = [s]"
  by (induction s) auto

lemma greatest_by_Max:
  "key (greatest_by key x xs) = Max (key ` set (x # xs))"
proof (rule Max_eqI [symmetric])
  show "finite (key ` set (x # xs))" by simp
next
  fix k assume "k \<in> key ` set (x # xs)"
  then obtain y where "y \<in> set (x # xs)" "k = key y" by blast
  then show "k \<le> key (greatest_by key x xs)"
    using greatest_by_greatest [of y x xs key] by simp
next
  show "key (greatest_by key x xs) \<in> key ` set (x # xs)"
    using greatest_by_in_set [of key x xs] by blast
qed

text \<open>
  The three tests of the code on the period (NULL or empty, no separator, not two pieces)
  and the caught \<open>ValueError\<close> of the unpacking all give Fattening, as a split into other
  than two pieces does in \<open>category_of_period\<close>.
\<close>

lemma category_of_period_code:
  "(case (case p of
       None \<Rightarrow> Inr (str ''Fattening'')
     | Some period \<Rightarrow>
         if period = [] then Inr (str ''Fattening'')
         else if 126 \<notin> set period then Inr (str ''Fattening'')
         else (case split_on 126 period of
                 [start_str, end_str] \<Rightarrow>
                   (case strptime (strip end_str) of
                      Inl e \<Rightarrow> Inr (str ''Fattening'')
                    | Inr end_date \<Rightarrow>
                        (let gap = today - end_date in
                         Inr (if gap \<le> 10 then str ''Milking'' else str ''Dry'')))
               | _ \<Rightarrow> Inl ValueError)) of
      Inr category \<Rightarrow> category
    | Inl e \<Rightarrow> str ''Fattening'') = category_of_period strptime today p"
proof (cases p)
  case None
  then show ?thesis by (simp add: category_of_period_def)
next
  case (Some period)
  show ?thesis
  proof (cases "126 \<in> set period")
    case False
    then show ?thesis
      using Some by (simp add: category_of_period_def split_on_no_sep)
  next
    case True
    then have "period \<noteq> []" by auto
    with True Some show ?thesis
      by (simp add: category_of_period_def Let_def split: list.splits sum.splits)
  qed
qed

text \<open>
  For the animal \<open>a\<close> that the function finds for the ear tag, the category is Fattening
  when the animal has no lactation period; otherwise it is decided by the period of greatest
  value: Fattening when that text does not split on \<open>~\<close> into a start and an end or the end
  date is not accepted by the parser, and otherwise, with the gap of today minus the end
  date in days, Milking when the gap is at most 10 (a negative gap included) and Dry when it
  is greater.
\<close>

lemma compute_animal_category_rule:
  assumes "List.find (\<lambda>a. a_ear_tag a = Some ear_tag) (animals d) = Some a"
  shows "compute_animal_category strptime today d ear_tag =
     (let ps = filter (\<lambda>l. l_animal_id l = Some (a_id a)) (lactation d) in
      if ps = [] then str ''Fattening''
      else (case Max (l_period ` set ps) of
              None \<Rightarrow> str ''Fattening''
            | Some period \<Rightarrow>
                (case split_on 126 period of
                   [start_str, end_str] \<Rightarrow>
                     (case strptime (strip end_str) of
                        Inl e \<Rightarrow> str ''Fattening''
                      | Inr end_date \<Rightarrow> if today - end_date \<le> 10 then str ''Milking'' else str ''Dry'')
                 | _ \<Rightarrow> str ''Fattening'')))"
proof -
  have row: "fetchone (filter (\<lambda>a. a_ear_tag a = Some ear_tag) (animals d)) = Some a"
    using assms by (simp add: fetchone_filter)
  show ?thesis
  proof (cases "filter (\<lambda>l. l_animal_id l = Some (a_id a)) (lactation d)")
    case Nil
    then show ?thesis
      by (simp add: compute_animal_category_def animal_category_body_def row order_desc_limit1_def)
  next
    case (Cons l ls)
    let ?lrow = "greatest_by l_period l ls"
    have "compute_animal_category strptime today d ear_tag =
        (case (case l_period ?lrow of
           None \<Rightarrow> Inr (str ''Fattening'')
         | Some period \<Rightarrow>
             if period = [] then Inr (str ''Fattening'')
             else if 126 \<notin> set period then Inr (str ''Fattening'')
             else (case split_on 126 period of
                     [start_str, end_str] \<Rightarrow>
                       (case strptime (strip end_str) of
                          Inl e \<Rightarrow> Inr (str ''Fattening'')
                        | Inr end_date \<Rightarrow>
                            (let gap = today - end_date in
                             Inr (if gap \<le> 10 then str ''Milking'' else str ''Dry'')))
                   | _ \<Rightarrow> Inl ValueError)) of
          Inr category \<Rightarrow> category
        | Inl e \<Rightarrow> str ''Fattening'')"
      using Cons
      by (simp add: compute_animal_category_def animal_category_body_def row order_desc_limit1_def)
    also have "\<dots> = category_of_period strptime today (l_period ?lrow)"
      by (rule category_of_period_code)
    also have "l_period ?lrow = Max (l_period ` set (l # ls))"
      by (rule greatest_by_Max)
    finally show ?thesis
      using Cons by (simp add: category_of_period_def)
  qed
qed

lemma compute_animal_category_rule_example:
  "List.find (\<lambda>a. a_ear_tag a = Some (str ''A2'')) (animals sunrise_db)
     = Some \<lparr>a_id = 2, a_ear_tag = Some (str ''A2''), a_farm_name = Some sunrise,
             a_gender = Some (str ''F''), a_birth_date = Some (str ''2023-03-25'')\<rparr>
   \<and> compute_animal_category strptime_ymd 738910 sunrise_db (str ''A2'') = str ''Milking''
   \<and> compute_animal_category strptime_ymd 738916 sunrise_db (str ''A2'') = str ''Dry''"
proof -
  have h: "List.find (\<lambda>a. a_ear_tag a = Some (str ''A2'')) (animals sunrise_db)
     = Some \<lparr>a_id = 2, a_ear_tag = Some (str ''A2''), a_farm_name = Some sunrise,
             a_gender = Some (str ''F''), a_birth_date = Some (str ''2023-03-25'')\<rparr>"
    by (simp add: sunrise_db_def str_def)
  have ps: "filter (\<lambda>l. l_animal_id l = Some 2) (lactation sunrise_db)
              = [\<lparr>l_animal_id = Some 2, l_period = Some (str ''2024-01-01 ~ 2024-01-20'')\<rparr>]"
    by (simp add: sunrise_db_def)
  have sp: "split_on 126 (str ''2024-01-01 ~ 2024-01-20'') = [str ''2024-01-01 '', str '' 2024-01-20'']"
    by (simp add: str_def)
  have st: "strip (str '' 2024-01-20'') = str ''2024-01-20''"
    by (simp add: strip_def is_space_def str_def)
  show ?thesis
    using h compute_animal_category_rule [OF h, of strptime_ymd 738910]
      compute_animal_category_rule [OF h, of strptime_ymd 738916]
    by (simp add: ps sp st strptime_examples)
qed

text \<open>
  C4: the specification gives every animal the category of its own lactation periods:
  Fattening without a period, and otherwise Milking or Dry by the gap between today and
  the end of its period of greatest value. The function is given the ear tag alone and
  reads the first row of the animals with that tag, whichever its farm. In a store where
  the farms Sunrise and Hill both tag an animal \<open>A1\<close>, on 2024-01-25 the animal of Hill,
  whose period ended five days before, is Milking; the function finds the animal of
  Sunrise, which has no period, and returns Fattening for the tag.
\<close>

theorem animal_category_shared_ear_tag:
  "hill_a1 \<in> set (animals shared_tag_db)
   \<and> a_ear_tag hill_a1 = Some (str ''A1'')
   \<and> spec_classify_category strptime_ymd 738910 shared_tag_db hill_a1 = str ''Milking''
   \<and> compute_animal_category strptime_ymd 738910 shared_tag_db (str ''A1'') = str ''Fattening''"
proof -
  have sp: "split_on 126 (str ''2024-01-01 ~ 2024-01-20'') = [str ''2024-01-01 '', str '' 2024-01-20'']"
    by (simp add: str_def)
  have st: "strip (str '' 2024-01-20'') = str ''2024-01-20''"
    by (simp add: strip_def is_space_def str_def)
  have spec: "spec_classify_category strptime_ymd 738910 shared_tag_db hill_a1 = str ''Milking''"
    by (simp add: spec_classify_category_def category_of_period_def shared_tag_db_def hill_a1_def
        sp st strptime_examples)
  have code: "compute_animal_category strptime_ymd 738910 shared_tag_db (str ''A1'') = str ''Fattening''"
    by (simp add: compute_animal_category_def animal_category_body_def order_desc_limit1_def
        shared_tag_db_def hill_a1_def sunrise_def str_def)
  show ?thesis
    using spec code by (simp add: shared_tag_db_def hill_a1_def)
qed

subsection \<open>Scope of a status\<close>
















subsection \<open>The calendar: the fields of a date and its ordinal\<close>

lemma div_step:
  fixes y k :: int
  assumes "0 < k"
  shows "y div k = (y - 1) div k + (if y mod k = 0 then 1 else 0)"
proof -
  define q where "q = (y - 1) div k"
  define r where "r = (y - 1) mod k"
  have y: "y = k * q + (r + 1)"
    unfolding q_def r_def by simp
  have r: "0 \<le> r" "r < k"
    using assms unfolding r_def by simp_all
  show ?thesis
  proof (cases "r + 1 = k")
    case True
    with y have "y = k * (q + 1) + 0" by (simp add: algebra_simps)
    from int_div_pos_eq [OF this] int_mod_pos_eq [OF this] assms
    show ?thesis by (simp add: q_def)
  next
    case False
    with r have r1: "0 \<le> r + 1" "r + 1 < k" by simp_all
    from int_div_pos_eq [OF y r1] int_mod_pos_eq [OF y r1] r
    show ?thesis by (simp add: q_def)
  qed
qed

lemma mod_400_100_4:
  fixes y :: int
  shows "y mod 400 = 0 \<Longrightarrow> y mod 100 = 0" and "y mod 100 = 0 \<Longrightarrow> y mod 4 = 0"
  by (auto simp flip: dvd_eq_mod_eq_0 elim: dvd_trans [rotated])

lemma dby_succ: "days_before_year (y + 1) = days_before_year y + (if is_leap y then 366 else 365)"
proof -
  have a: "days_before_year (y + 1) = y * 365 + y div 4 - y div 100 + y div 400"
    by (simp add: days_before_year_def)
  have b: "days_before_year y = (y - 1) * 365 + (y - 1) div 4 - (y - 1) div 100 + (y - 1) div 400"
    by (simp add: days_before_year_def Let_def)
  have d: "y div 4 = (y - 1) div 4 + (if y mod 4 = 0 then 1 else 0)"
    "y div 100 = (y - 1) div 100 + (if y mod 100 = 0 then 1 else 0)"
    "y div 400 = (y - 1) div 400 + (if y mod 400 = 0 then 1 else 0)"
    by (rule div_step, simp)+
  have m: "y mod 400 = 0 \<Longrightarrow> y mod 100 = 0" "y mod 100 = 0 \<Longrightarrow> y mod 4 = 0"
    by (rule mod_400_100_4, assumption)+
  have "days_before_year (y + 1) - days_before_year y =
      365 + (if y mod 4 = 0 then 1 else 0) - (if y mod 100 = 0 then 1 else 0) + (if y mod 400 = 0 then 1 else 0)"
    unfolding a b d by (simp only: algebra_simps)
  moreover have "(if y mod 4 = 0 then 1 else 0) - (if y mod 100 = 0 then 1 else 0) + (if y mod 400 = 0 then 1 else 0)
      = (if is_leap y then 1 else (0::int))"
    using m unfolding is_leap_def by (cases "y mod 4 = 0"; cases "y mod 100 = 0"; cases "y mod 400 = 0") simp_all
  ultimately show ?thesis by (simp split: if_splits)
qed


lemma dby_mono: "y \<le> y' \<Longrightarrow> days_before_year y \<le> days_before_year y'"
proof (induction y' rule: int_ge_induct)
  case base
  show ?case by simp
next
  case (step i)
  then show ?case by (simp add: dby_succ)
qed

lemma div_parts:
  fixes a b c e :: int
  assumes "0 \<le> b" "b \<le> 3" "0 \<le> c" "c \<le> 24" "0 \<le> e" "e \<le> 3"
  shows "(a * 400 + b * 100 + c * 4 + e) div 4 = a * 100 + b * 25 + c"
    and "(a * 400 + b * 100 + c * 4 + e) div 100 = a * 4 + b"
    and "(a * 400 + b * 100 + c * 4 + e) div 400 = a"
proof -
  have "a * 400 + b * 100 + c * 4 + e = 4 * (a * 100 + b * 25 + c) + e" by simp
  then show "(a * 400 + b * 100 + c * 4 + e) div 4 = a * 100 + b * 25 + c"
    by (rule int_div_pos_eq) (use assms in simp_all)
  have "a * 400 + b * 100 + c * 4 + e = 100 * (a * 4 + b) + (c * 4 + e)" by simp
  then show "(a * 400 + b * 100 + c * 4 + e) div 100 = a * 4 + b"
    by (rule int_div_pos_eq) (use assms in simp_all)
  have "a * 400 + b * 100 + c * 4 + e = 400 * a + (b * 100 + c * 4 + e)" by simp
  then show "(a * 400 + b * 100 + c * 4 + e) div 400 = a"
    by (rule int_div_pos_eq) (use assms in simp_all)
qed

lemma dby_parts:
  fixes a b c e :: int
  assumes "0 \<le> b" "b \<le> 3" "0 \<le> c" "c \<le> 24" "0 \<le> e" "e \<le> 3"
  shows "days_before_year (a * 400 + 1 + b * 100 + c * 4 + e) =
           a * 146097 + b * 36524 + c * 1461 + e * 365"
proof -
  have eq: "a * 400 + 1 + b * 100 + c * 4 + e - 1 = a * 400 + b * 100 + c * 4 + e" by simp
  show ?thesis
    unfolding days_before_year_def Let_def eq div_parts [OF assms] by simp
qed

lemma month_cases:
  fixes n :: int
  assumes "0 \<le> n" "n < 365"
  obtains "(n + 50) div 32 = 1" | "(n + 50) div 32 = 2" | "(n + 50) div 32 = 3" | "(n + 50) div 32 = 4"
    | "(n + 50) div 32 = 5" | "(n + 50) div 32 = 6" | "(n + 50) div 32 = 7" | "(n + 50) div 32 = 8"
    | "(n + 50) div 32 = 9" | "(n + 50) div 32 = 10" | "(n + 50) div 32 = 11" | "(n + 50) div 32 = 12"
proof -
  define k where "k = (n + 50) div 32"
  have "1 \<le> k" "k \<le> 12"
    using assms unfolding k_def by presburger+
  then have "k = 1 \<or> k = 2 \<or> k = 3 \<or> k = 4 \<or> k = 5 \<or> k = 6 \<or> k = 7 \<or> k = 8
      \<or> k = 9 \<or> k = 10 \<or> k = 11 \<or> k = 12"
    by presburger
  then show ?thesis
    using that unfolding k_def by blast
qed

lemmas month_day_eval = month_day_def DAYS_BEFORE_MONTH_def DAYS_IN_MONTH_def Let_def

lemma month_day_correct:
  assumes "0 \<le> n" "n < 365" "month_day n leap = (m, dd)"
  shows "1 \<le> m \<and> m \<le> 12 \<and> 1 \<le> dd
       \<and> dd \<le> DAYS_IN_MONTH ! nat m + (if m = 2 \<and> leap then 1 else 0)
       \<and> DAYS_BEFORE_MONTH ! nat m + (if 2 < m \<and> leap then 1 else 0) + dd = n + 1"
  using assms(1,2)
proof (cases rule: month_cases)
  case 1 with assms show ?thesis by (auto simp: month_day_eval split: if_splits)
next
  case 2 with assms show ?thesis by (auto simp: month_day_eval split: if_splits)
next
  case 3 with assms show ?thesis by (auto simp: month_day_eval split: if_splits)
next
  case 4 with assms show ?thesis by (auto simp: month_day_eval split: if_splits)
next
  case 5 with assms show ?thesis by (auto simp: month_day_eval split: if_splits)
next
  case 6 with assms show ?thesis by (auto simp: month_day_eval split: if_splits)
next
  case 7 with assms show ?thesis by (auto simp: month_day_eval split: if_splits)
next
  case 8 with assms show ?thesis by (auto simp: month_day_eval split: if_splits)
next
  case 9 with assms show ?thesis by (auto simp: month_day_eval split: if_splits)
next
  case 10 with assms show ?thesis by (auto simp: month_day_eval split: if_splits)
next
  case 11 with assms show ?thesis by (auto simp: month_day_eval split: if_splits)
next
  case 12 with assms show ?thesis by (auto simp: month_day_eval split: if_splits)
qed

lemma mod_zero_iff_top:
  fixes q s k :: int
  assumes "0 < s" "s \<le> k"
  shows "(k * q + s) mod k = 0 \<longleftrightarrow> s = k"
proof (cases "s = k")
  case True
  then show ?thesis by simp
next
  case False
  with assms have "s < k" "0 \<le> s" by simp_all
  with int_mod_pos_eq [of "k * q + s" k q s] have "(k * q + s) mod k = s" by simp
  with assms False show ?thesis by simp
qed

lemma leap_parts:
  fixes a b c e :: int
  assumes "0 \<le> b" "b \<le> 3" "0 \<le> c" "c \<le> 24" "0 \<le> e" "e \<le> 3"
  shows "is_leap (a * 400 + 1 + b * 100 + c * 4 + e) \<longleftrightarrow> e = 3 \<and> (c \<noteq> 24 \<or> b = 3)"
proof -
  let ?y = "a * 400 + 1 + b * 100 + c * 4 + e"
  have "?y = 4 * (a * 100 + b * 25 + c) + (e + 1)" by simp
  then have "?y mod 4 = 0 \<longleftrightarrow> e + 1 = 4"
    using assms by (simp only: mod_zero_iff_top)
  moreover have "?y = 100 * (a * 4 + b) + (c * 4 + e + 1)" by simp
  then have "?y mod 100 = 0 \<longleftrightarrow> c * 4 + e + 1 = 100"
    using assms by (simp only: mod_zero_iff_top)
  moreover have "?y = 400 * a + (b * 100 + c * 4 + e + 1)" by simp
  then have "?y mod 400 = 0 \<longleftrightarrow> b * 100 + c * 4 + e + 1 = 400"
    using assms by (simp only: mod_zero_iff_top)
  ultimately show ?thesis
    unfolding is_leap_def using assms by auto
qed


lemma ord2ymd_correct:
  assumes "ord2ymd n = (y, m, dd)"
  shows "1 \<le> m \<and> m \<le> 12 \<and> 1 \<le> dd \<and> dd \<le> days_in_month y m \<and> ymd2ord y m dd = n"
proof -
  define n0 where "n0 = n - 1"
  define a where "a = n0 div 146097"
  define r1 where "r1 = n0 mod 146097"
  define b where "b = r1 div 36524"
  define r2 where "r2 = r1 mod 36524"
  define c where "c = r2 div 1461"
  define r3 where "r3 = r2 mod 1461"
  define e where "e = r3 div 365"
  define r4 where "r4 = r3 mod 365"
  have eqs: "n = n0 + 1" "n0 = 146097 * a + r1" "r1 = 36524 * b + r2" "r2 = 1461 * c + r3" "r3 = 365 * e + r4"
    unfolding n0_def a_def r1_def b_def r2_def c_def r3_def e_def r4_def by simp_all
  have bnd: "0 \<le> r1" "r1 < 146097" "0 \<le> r2" "r2 < 36524" "0 \<le> r3" "r3 < 1461" "0 \<le> r4" "r4 < 365"
    unfolding r1_def r2_def r3_def r4_def by simp_all
  have b: "0 \<le> b" "b \<le> 4" using eqs bnd by linarith+
  have c: "0 \<le> c" "c \<le> 24" using eqs bnd by linarith+
  have e: "0 \<le> e" "e \<le> 4" using eqs bnd by linarith+
  have b4: "c = 0 \<and> e = 0 \<and> r4 = 0" if "b = 4"
  proof -
    from that eqs bnd have "r2 = 0" by linarith
    with eqs bnd c have "c = 0" "r3 = 0" by linarith+
    with eqs bnd e have "e = 0" "r4 = 0" by linarith+
    with \<open>c = 0\<close> show ?thesis by simp
  qed
  have e4: "r4 = 0" if "e = 4" using that eqs bnd by linarith
  have c24: "e \<le> 3" if "c = 24" using that eqs bnd by linarith
  have unfold: "ord2ymd n =
      (if e = 4 \<or> b = 4 then (a * 400 + 1 + b * 100 + c * 4 + e - 1, 12, 31)
       else (case month_day r4 (e = 3 \<and> (c \<noteq> 24 \<or> b = 3)) of
               (mth, dd) \<Rightarrow> (a * 400 + 1 + b * 100 + c * 4 + e, mth, dd)))"
    unfolding ord2ymd_def Let_def n0_def a_def r1_def b_def r2_def c_def r3_def e_def r4_def ..
  have dim12: "days_in_month yy 12 = 31" "DAYS_BEFORE_MONTH ! nat 12 = 334" for yy
    by (simp_all add: days_in_month_def DAYS_IN_MONTH_def DAYS_BEFORE_MONTH_def)
  show ?thesis
  proof (cases "e = 4 \<or> b = 4")
    case True
    with assms unfold have res: "y = a * 400 + 1 + b * 100 + c * 4 + e - 1" "m = 12" "dd = 31"
      by simp_all
    have "\<exists>b' c'. 0 \<le> b' \<and> b' \<le> 3 \<and> 0 \<le> c' \<and> c' \<le> 24 \<and> (c' \<noteq> 24 \<or> b' = 3)
          \<and> y = a * 400 + 1 + b' * 100 + c' * 4 + 3
          \<and> n = a * 146097 + b' * 36524 + c' * 1461 + 1461"
    proof (cases "b = 4")
      case True
      from b4 [OF this] True res eqs show ?thesis
        by (intro exI [of _ 3] exI [of _ 24]) simp
    next
      case False
      with True have "e = 4" by simp
      with e4 c24 False b c res eqs show ?thesis
        by (intro exI [of _ b] exI [of _ c]) auto
    qed
    then obtain b' c' where p: "0 \<le> b'" "b' \<le> 3" "0 \<le> c'" "c' \<le> 24" "c' \<noteq> 24 \<or> b' = 3"
      and y: "y = a * 400 + 1 + b' * 100 + c' * 4 + 3"
      and n: "n = a * 146097 + b' * 36524 + c' * 1461 + 1461"
      by blast
    have leap: "is_leap y"
      unfolding y using p by (subst leap_parts) simp_all
    have dby: "days_before_year y = a * 146097 + b' * 36524 + c' * 1461 + 3 * 365"
      unfolding y using p by (subst dby_parts) simp_all
    show ?thesis
      unfolding res(2,3) ymd2ord_def days_before_month_def dim12 dby n using leap by simp
  next
    case False
    then have e3: "e \<le> 3" and b3: "b \<le> 3" using e b by simp_all
    let ?leap = "e = 3 \<and> (c \<noteq> 24 \<or> b = 3)"
    from assms unfold False have md: "month_day r4 ?leap = (m, dd)"
      and y: "y = a * 400 + 1 + b * 100 + c * 4 + e"
      by (simp_all split: prod.splits)
    from month_day_correct [OF bnd(7,8) md]
    have m: "1 \<le> m" "m \<le> 12" and d1: "1 \<le> dd"
      and d2: "dd \<le> DAYS_IN_MONTH ! nat m + (if m = 2 \<and> ?leap then 1 else 0)"
      and d3: "DAYS_BEFORE_MONTH ! nat m + (if 2 < m \<and> ?leap then 1 else 0) + dd = r4 + 1"
      by simp_all
    have leap: "is_leap y \<longleftrightarrow> ?leap"
      unfolding y using b c e e3 b3 by (subst leap_parts) simp_all
    have dby: "days_before_year y = a * 146097 + b * 36524 + c * 1461 + e * 365"
      unfolding y using b c e e3 b3 by (subst dby_parts) simp_all
    have dim: "days_in_month y m = DAYS_IN_MONTH ! nat m + (if m = 2 \<and> ?leap then 1 else 0)"
      by (simp add: days_in_month_def leap DAYS_IN_MONTH_def)
    have "ymd2ord y m dd = n"
      unfolding ymd2ord_def days_before_month_def leap dby using d3 eqs by simp
    with m d1 d2 dim show ?thesis by simp
  qed
qed

lemma month_range_cases:
  fixes m :: int
  assumes "1 \<le> m" "m \<le> 12"
  obtains "m = 1" | "m = 2" | "m = 3" | "m = 4" | "m = 5" | "m = 6" | "m = 7" | "m = 8"
    | "m = 9" | "m = 10" | "m = 11" | "m = 12"
proof -
  from assms have "m = 1 \<or> m = 2 \<or> m = 3 \<or> m = 4 \<or> m = 5 \<or> m = 6 \<or> m = 7 \<or> m = 8
      \<or> m = 9 \<or> m = 10 \<or> m = 11 \<or> m = 12"
    by presburger
  then show ?thesis using that by blast
qed

lemmas month_tables = days_before_month_def days_in_month_def DAYS_BEFORE_MONTH_def DAYS_IN_MONTH_def

lemma month_end_in_year:
  assumes "1 \<le> m" "m \<le> 12"
  shows "0 \<le> days_before_month y m"
    and "days_before_month y m + days_in_month y m \<le> (if is_leap y then 366 else 365)"
  using assms by (cases m rule: month_range_cases; simp add: month_tables)+

lemma month_start_succ:
  assumes "1 \<le> m" "m \<le> 11"
  shows "days_before_month y (m + 1) = days_before_month y m + days_in_month y m"
proof -
  from assms have "1 \<le> m" "m \<le> 12" by simp_all
  then show ?thesis
    using assms(2) by (cases m rule: month_range_cases) (simp_all add: month_tables)
qed

lemma days_in_month_nonneg:
  assumes "1 \<le> m" "m \<le> 12"
  shows "0 \<le> days_in_month y m"
  using assms by (cases m rule: month_range_cases) (simp_all add: month_tables)

lemma month_start_mono:
  assumes "1 \<le> m" "m \<le> m'" "m' \<le> 12"
  shows "days_before_month y m \<le> days_before_month y m'"
  using assms(2,3)
proof (induction m' rule: int_ge_induct)
  case base
  show ?case by simp
next
  case (step i)
  with assms(1) have i: "1 \<le> i" "i \<le> 11" "i \<le> 12" by simp_all
  have "days_before_month y i \<le> days_before_month y (i + 1)"
    using month_start_succ [OF i(1,2), of y] days_in_month_nonneg [OF i(1,3), of y] by simp
  moreover have "days_before_month y m \<le> days_before_month y i"
    using step i by simp
  ultimately show ?case by simp
qed

text \<open>A later calendar month starts after the end of an earlier one.\<close>

lemma month_number_mono: "n \<le> n' \<Longrightarrow> month_number n \<le> month_number n'"
proof (rule ccontr)
  assume le: "n \<le> n'" and "\<not> month_number n \<le> month_number n'"
  then have less: "month_number n' < month_number n" by simp
  obtain y m dd where o: "ord2ymd n = (y, m, dd)" by (cases "ord2ymd n") auto
  obtain y' m' dd' where o': "ord2ymd n' = (y', m', dd')" by (cases "ord2ymd n'") auto
  from ord2ymd_correct [OF o]
  have m: "1 \<le> m" "m \<le> 12" "1 \<le> dd" and n: "n = days_before_year y + days_before_month y m + dd"
    by (simp_all add: ymd2ord_def)
  from ord2ymd_correct [OF o']
  have m': "1 \<le> m'" "m' \<le> 12" "dd' \<le> days_in_month y' m'"
    and n': "n' = days_before_year y' + days_before_month y' m' + dd'"
    by (simp_all add: ymd2ord_def)
  from less o o' have "y' * 12 + m' < y * 12 + m"
    by (simp add: month_number_def)
  with m m' consider "y' < y" | "y' = y" "m' < m" by linarith
  then have "n' < n"
  proof cases
    case 1
    have "n' \<le> days_before_year y' + (if is_leap y' then 366 else 365)"
      using month_end_in_year(2) [OF m'(1,2), of y'] m'(3) n' by linarith
    also have "\<dots> = days_before_year (y' + 1)" by (simp add: dby_succ)
    also have "\<dots> \<le> days_before_year y" using 1 by (intro dby_mono) simp
    also have "\<dots> < n" using month_end_in_year(1) [OF m(1,2), of y] m(3) n by linarith
    finally show ?thesis .
  next
    case 2
    then have "m' + 1 \<le> m" "m' \<le> 11" using m by simp_all
    have "n' \<le> days_before_year y + days_before_month y (m' + 1)"
      using month_start_succ [OF m'(1) \<open>m' \<le> 11\<close>, of y] m'(3) n' 2 by simp
    also have "\<dots> \<le> days_before_year y + days_before_month y m"
      using month_start_mono [of "m' + 1" m y] m' m \<open>m' + 1 \<le> m\<close> by simp
    also have "\<dots> < n" using m(3) n by simp
    finally show ?thesis .
  qed
  with le show False by simp
qed

subsection \<open>Trailing twelve months of yield\<close>

lemma upt_12: "[0..<12] = [0, 1, 2, 3, 4, 5, 6, 7, 8, 9, 10, 11]"
  by (simp add: upt_rec)

lemma month_labels_dates:
  assumes "330 < today" "today \<le> MAXORDINAL" "\<forall>i\<in>set ixs. i \<le> 11"
  shows "month_labels today ixs = Inr (map (\<lambda>i. strftime_ym (today - (11 - int i) * 30)) ixs)"
  using assms(3)
proof (induction ixs)
  case Nil
  show ?case by simp
next
  case (Cons i ixs)
  then have "i \<le> 11" and rest: "month_labels today ixs = Inr (map (\<lambda>i. strftime_ym (today - (11 - int i) * 30)) ixs)"
    by simp_all
  then have "date_sub today ((11 - int i) * 30) = Inr (today - (11 - int i) * 30)"
    using assms(1,2) by (simp add: date_sub_def Let_def)
  with rest show ?case by simp
qed

lemma group_sum_distinct: "distinct (map fst (group_sum key rows))"
  by (simp add: group_sum_def comp_def)

lemma map_of_rev_distinct:
  assumes "distinct (map fst rows)"
  shows "map_of (rev rows) k = map_of rows k"
proof (cases "map_of rows k")
  case None
  then have "k \<notin> fst ` set (rev rows)" by (simp add: map_of_eq_None_iff)
  then have "map_of (rev rows) k = None" by (rule map_of_eq_None_iff [THEN iffD2])
  with None show ?thesis by simp
next
  case (Some v)
  then have "(k, v) \<in> set (rev rows)" by (auto dest: map_of_SomeD)
  moreover have "distinct (map fst (rev rows))" using assms by (simp add: rev_map [symmetric])
  ultimately show ?thesis using Some by simp
qed


lemma sorted_map_mono:
  fixes f :: "int \<Rightarrow> int"
  assumes "\<And>x y. x \<le> y \<Longrightarrow> f x \<le> f y" "sorted xs"
  shows "sorted (map f xs)"
  using assms(2) by (induction xs) (auto intro: assms(1))

text \<open>
  C2, amended: for an empty scope \<open>plot_farm_milk_yield_trend_filtered\<close> builds no series
  and returns \<open>None\<close>. For a scope that is not empty and a current date more than 365 days
  after 0001-01-01, it builds exactly 12 pairs of a month label and a total, the labels
  being the \<open>"%Y-%m"\<close> of twelve dates in ascending order that end today: the months of the
  labels never decrease from one entry to the next and the last label is the current month.
  A label that the query did not return has total 0, and a label that it returned has the
  total of the query.
\<close>

theorem trend_series:
  "(get_filtered_ear_tags d farm status = [] \<longrightarrow>
      plot_farm_milk_yield_trend_filtered sql_month today d farm status = Inr None)
   \<and> (get_filtered_ear_tags d farm status \<noteq> [] \<and> 365 < today \<and> today \<le> MAXORDINAL \<longrightarrow>
      (\<exists>series dates.
         plot_farm_milk_yield_trend_filtered sql_month today d farm status = Inr (Some series)
         \<and> length series = 12 \<and> length dates = 12
         \<and> map fst series = map strftime_ym dates
         \<and> sorted dates \<and> sorted (map month_number dates) \<and> last dates = today
         \<and> (\<forall>(m, v)\<in>set series.
               (Some m \<notin> fst ` set (trend_rows sql_month d (get_filtered_ear_tags d farm status)
                                       (strftime_ymd (today - 365))) \<longrightarrow> v = Some 0)
             \<and> (\<forall>x. (Some m, x) \<in> set (trend_rows sql_month d (get_filtered_ear_tags d farm status)
                                       (strftime_ymd (today - 365))) \<longrightarrow> v = x))))"
proof (intro conjI impI)
  assume "get_filtered_ear_tags d farm status = []"
  then show "plot_farm_milk_yield_trend_filtered sql_month today d farm status = Inr None"
    by (simp add: plot_farm_milk_yield_trend_filtered_def)
next
  assume hyp: "get_filtered_ear_tags d farm status \<noteq> [] \<and> 365 < today \<and> today \<le> MAXORDINAL"
  let ?rows = "trend_rows sql_month d (get_filtered_ear_tags d farm status) (strftime_ymd (today - 365))"
  let ?dates = "map (\<lambda>i. today - (11 - int i) * 30) [0..<12]"
  let ?total_of = "\<lambda>m. (case map_of (rev ?rows) (Some m) of Some month_total \<Rightarrow> month_total | None \<Rightarrow> Some 0)"
  let ?series = "map (\<lambda>m. (m, ?total_of m)) (map strftime_ym ?dates)"
  have start: "date_sub today 365 = Inr (today - 365)"
    using hyp by (simp add: date_sub_def Let_def)
  have labels: "month_labels today [0..<12] = Inr (map strftime_ym ?dates)"
    using hyp month_labels_dates [of today "[0..<12]"] by (simp add: comp_def)
  have res: "plot_farm_milk_yield_trend_filtered sql_month today d farm status = Inr (Some ?series)"
    using hyp by (simp add: plot_farm_milk_yield_trend_filtered_def start labels Let_def)
  have sorted_dates: "sorted ?dates"
    by (simp add: upt_12)
  have sorted_months: "sorted (map month_number ?dates)"
    using sorted_dates by (intro sorted_map_mono month_number_mono)
  have last: "last ?dates = today"
    by (simp add: upt_12)
  have dist: "distinct (map fst ?rows)"
    unfolding trend_rows_def by (rule group_sum_distinct)
  have fill: "(Some m \<notin> fst ` set ?rows \<longrightarrow> ?total_of m = Some 0)
      \<and> (\<forall>x. (Some m, x) \<in> set ?rows \<longrightarrow> ?total_of m = x)" for m
  proof (intro conjI impI allI)
    assume "Some m \<notin> fst ` set ?rows"
    then have "map_of ?rows (Some m) = None" by (rule map_of_eq_None_iff [THEN iffD2])
    then show "?total_of m = Some 0"
      by (simp only: map_of_rev_distinct [OF dist]) simp
  next
    fix x assume "(Some m, x) \<in> set ?rows"
    with dist have "map_of ?rows (Some m) = Some x" by simp
    then show "?total_of m = x"
      by (simp only: map_of_rev_distinct [OF dist]) simp
  qed
  have all: "\<forall>(m, v)\<in>set ?series.
      (Some m \<notin> fst ` set ?rows \<longrightarrow> v = Some 0) \<and> (\<forall>x. (Some m, x) \<in> set ?rows \<longrightarrow> v = x)"
  proof -
    have "(Some m \<notin> fst ` set ?rows \<longrightarrow> v = Some 0) \<and> (\<forall>x. (Some m, x) \<in> set ?rows \<longrightarrow> v = x)"
      if "(m, v) \<in> set ?series" for m v
    proof -
      from that have "v = ?total_of m" by auto
      with fill [of m] show ?thesis by simp
    qed
    then show ?thesis by blast
  qed
  have "length ?series = 12" "length ?dates = 12" "map fst ?series = map strftime_ym ?dates"
    by (simp_all add: comp_def)
  with res sorted_dates sorted_months last all
  show "\<exists>series dates.
         plot_farm_milk_yield_trend_filtered sql_month today d farm status = Inr (Some series)
         \<and> length series = 12 \<and> length dates = 12
         \<and> map fst series = map strftime_ym dates
         \<and> sorted dates \<and> sorted (map month_number dates) \<and> last dates = today
         \<and> (\<forall>(m, v)\<in>set series.
               (Some m \<notin> fst ` set ?rows \<longrightarrow> v = Some 0)
             \<and> (\<forall>x. (Some m, x) \<in> set ?rows \<longrightarrow> v = x))"
    by (intro exI [of _ ?series] exI [of _ ?dates] conjI)
qed

lemmas calendar_eval =
  strftime_ym_def strftime_ymd_def ord2ymd_def month_day_def DAYS_BEFORE_MONTH_def
  DAYS_IN_MONTH_def digits2_def digits4_def Let_def

lemma sunrise_owned_scope:
  "get_filtered_ear_tags sunrise_db sunrise (str ''owned'') = [str ''A1'', str ''A2'']"
  by (simp add: scope_eval sunrise_db_def)

lemma sunrise_start: "strftime_ymd 738545 = str ''2023-01-25''"
  by (simp add: calendar_eval str_def)

lemma sunrise_rows:
  "trend_rows example_sql_month sunrise_db [str ''A1'', str ''A2''] (str ''2023-01-25'')
     = [(Some (str ''2023-12''), Some 20), (Some (str ''2024-01''), Some 30)]"
  by (simp add: trend_rows_def group_sum_def sql_sum_def sql_in_def example_sql_month_def
      sunrise_db_def str_def)

lemma sunrise_labels:
  "month_labels 738910 [0..<12] =
     Inr [str ''2023-03'', str ''2023-03'', str ''2023-04'', str ''2023-05'', str ''2023-06'',
          str ''2023-07'', str ''2023-08'', str ''2023-09'', str ''2023-10'', str ''2023-11'',
          str ''2023-12'', str ''2024-01'']"
  by (simp add: upt_12 date_sub_def MAXORDINAL_def calendar_eval str_def)

theorem trend_series_witness:
  "get_filtered_ear_tags sunrise_db sunrise (str ''Cull'') = []
   \<and> plot_farm_milk_yield_trend_filtered example_sql_month 738910 sunrise_db sunrise (str ''Cull'')
       = Inr None
   \<and> get_filtered_ear_tags sunrise_db sunrise (str ''owned'') \<noteq> []
   \<and> (365 :: int) < 738910 \<and> 738910 \<le> MAXORDINAL
   \<and> plot_farm_milk_yield_trend_filtered example_sql_month 738910 sunrise_db sunrise (str ''owned'')
       = Inr (Some [(str ''2023-03'', Some 0), (str ''2023-03'', Some 0), (str ''2023-04'', Some 0),
                    (str ''2023-05'', Some 0), (str ''2023-06'', Some 0), (str ''2023-07'', Some 0),
                    (str ''2023-08'', Some 0), (str ''2023-09'', Some 0), (str ''2023-10'', Some 0),
                    (str ''2023-11'', Some 0), (str ''2023-12'', Some 20), (str ''2024-01'', Some 30)])"
proof -
  have hyp: "get_filtered_ear_tags sunrise_db sunrise (str ''owned'') \<noteq> []
      \<and> (365 :: int) < 738910 \<and> 738910 \<le> MAXORDINAL"
    by (simp add: sunrise_owned_scope MAXORDINAL_def)
  from trend_series [of sunrise_db sunrise "str ''owned''" example_sql_month 738910] hyp
  obtain series where some: "plot_farm_milk_yield_trend_filtered example_sql_month 738910 sunrise_db
      sunrise (str ''owned'') = Inr (Some series)" and "length series = 12"
    by blast
  have "plot_farm_milk_yield_trend_filtered example_sql_month 738910 sunrise_db sunrise (str ''owned'')
       = Inr (Some [(str ''2023-03'', Some 0), (str ''2023-03'', Some 0), (str ''2023-04'', Some 0),
                    (str ''2023-05'', Some 0), (str ''2023-06'', Some 0), (str ''2023-07'', Some 0),
                    (str ''2023-08'', Some 0), (str ''2023-09'', Some 0), (str ''2023-10'', Some 0),
                    (str ''2023-11'', Some 0), (str ''2023-12'', Some 20), (str ''2024-01'', Some 30)])"
    unfolding plot_farm_milk_yield_trend_filtered_def sunrise_owned_scope
    by (simp add: date_sub_def MAXORDINAL_def sunrise_start sunrise_rows sunrise_labels Let_def)
       (simp add: str_def)?
  moreover have empty: "get_filtered_ear_tags sunrise_db sunrise (str ''Cull'') = []"
    by (simp add: scope_eval sunrise_db_def)
  moreover have "plot_farm_milk_yield_trend_filtered example_sql_month 738910 sunrise_db sunrise
      (str ''Cull'') = Inr None"
    using trend_series [of sunrise_db sunrise "str ''Cull''" example_sql_month 738910] empty
    by blast
  ultimately show ?thesis using hyp some by simp
qed

text \<open>
  The unamended sentence fails for an empty scope: no animal of the farm has the status Dead,
  and the function returns \<open>None\<close> instead of twelve entries of total 0.
\<close>

theorem trend_series_empty_scope:
  "get_filtered_ear_tags sunrise_db sunrise (str ''Dead'') = []
   \<and> plot_farm_milk_yield_trend_filtered example_sql_month 738910 sunrise_db sunrise (str ''Dead'')
       = Inr None"
  by (simp add: plot_farm_milk_yield_trend_filtered_def scope_eval sunrise_db_def)

text \<open>
  The labels are taken at steps of 30 days, not of calendar months: on 2023-01-31 the
  current month is labelled twice and February 2022 is missing.
\<close>

lemma month_labels_repeat:
  "month_labels (ymd2ord 2023 1 31) [0..<12] =
     Inr [str ''2022-03'', str ''2022-04'', str ''2022-05'', str ''2022-06'', str ''2022-07'',
          str ''2022-08'', str ''2022-09'', str ''2022-10'', str ''2022-11'', str ''2022-12'',
          str ''2023-01'', str ''2023-01'']"
  by (simp add: upt_12 date_sub_def MAXORDINAL_def calendar_eval str_def ymd2ord_def
      days_before_year_def days_before_month_def is_leap_def)

end
